theory Spec2Isabelle
  imports
    Complex_Main
    "HOL-Library.AList"
    "HOL-Library.Product_Lexorder"
    "HOL-Library.Multiset"
begin

section \<open>Python values shared by the embedding\<close>

text \<open>
  An exception is the pair that the handlers of the program read from it:
  \<^verbatim>\<open>type(e).__name__\<close> and \<^verbatim>\<open>str(e)\<close>. A function that may raise returns
  \<open>exn + 'a\<close>, with \<open>Inl\<close> for the raised exception.
\<close>

datatype exn = Exn (exn_type: string) (exn_msg: string)

abbreviation ValueError :: "string \<Rightarrow> exn" where
  "ValueError msg \<equiv> Exn ''ValueError'' msg"

abbreviation ZeroDivisionError :: "string \<Rightarrow> exn" where
  "ZeroDivisionError msg \<equiv> Exn ''ZeroDivisionError'' msg"

abbreviation OverflowError :: "string \<Rightarrow> exn" where
  "OverflowError msg \<equiv> Exn ''OverflowError'' msg"

text \<open>\<^verbatim>\<open>str(n)\<close> of an integer, as the error messages print it.\<close>

fun digits :: "nat \<Rightarrow> string" where
  "digits n = (if n < 10 then [char_of (48 + n)] else digits (n div 10) @ [char_of (48 + n mod 10)])"

definition show_int :: "int \<Rightarrow> string" where
  "show_int v = (if v < 0 then CHR ''-'' # digits (nat (- v)) else digits (nat v))"

text \<open>
  A Python \<^verbatim>\<open>dict\<close> keeps its keys in insertion order, and \<^verbatim>\<open>min\<close> over
  \<^verbatim>\<open>d.items()\<close> reads them in that order, so a dict is an association list:
  \<^verbatim>\<open>d[k] = v\<close> is \<^const>\<open>AList.update\<close> (in place for a known key, appended for
  a new one), \<^verbatim>\<open>d.pop(k, None)\<close> is \<^const>\<open>AList.delete\<close>, \<^verbatim>\<open>k in d\<close> and
  \<^verbatim>\<open>d.get(k, dflt)\<close> read \<^const>\<open>map_of\<close>.
\<close>

type_synonym ('k, 'v) dict = "('k \<times> 'v) list"

definition dict_get :: "('k, 'v) dict \<Rightarrow> 'k \<Rightarrow> 'v \<Rightarrow> 'v" where
  "dict_get d k dflt = (case map_of d k of None \<Rightarrow> dflt | Some v \<Rightarrow> v)"

definition dict_keys :: "('k, 'v) dict \<Rightarrow> 'k set" where
  "dict_keys d = fst ` set d"

text \<open>
  \<^verbatim>\<open>min(items, key=f)\<close>: the first item whose key is least (a later item replaces
  the best one only when its key is strictly smaller); \<^verbatim>\<open>ValueError\<close> on an empty
  sequence.
\<close>

fun min_from :: "('a \<Rightarrow> 'b::linorder) \<Rightarrow> 'a \<Rightarrow> 'a list \<Rightarrow> 'a" where
  "min_from f best [] = best"
| "min_from f best (x # xs) = min_from f (if f x < f best then x else best) xs"

definition py_min :: "('a \<Rightarrow> 'b::linorder) \<Rightarrow> 'a list \<Rightarrow> exn + 'a" where
  "py_min f xs =
     (case xs of
        [] \<Rightarrow> Inl (ValueError ''min() arg is an empty sequence'')
      | x # rest \<Rightarrow> Inr (min_from f x rest))"


text \<open>
  Statements in sequence, the first exception raised ending the sequence.
\<close>

definition bind_exn :: "exn + 'a \<Rightarrow> ('a \<Rightarrow> exn + 'b) \<Rightarrow> exn + 'b" where
  "bind_exn m f = (case m of Inl e \<Rightarrow> Inl e | Inr x \<Rightarrow> f x)"

text \<open>
  \<^verbatim>\<open>d[k]\<close> on a dict whose entry under \<open>k\<close> is \<open>v\<close>, \<open>None\<close> when the dict has no key
  \<open>k\<close>. The \<^verbatim>\<open>str\<close> of a \<^verbatim>\<open>KeyError\<close> is the \<^verbatim>\<open>repr\<close> of the key, in single quotes.
\<close>

definition key_error :: "string \<Rightarrow> exn" where
  "key_error k = Exn ''KeyError'' ([CHR 0x27] @ k @ [CHR 0x27])"

definition subscript :: "string \<Rightarrow> 'a option \<Rightarrow> exn + 'a" where
  "subscript k v = (case v of None \<Rightarrow> Inl (key_error k) | Some x \<Rightarrow> Inr x)"


section \<open>utils/cache\_manager.py: CacheManager\<close>

text \<open>
  The three dicts of the object and its capacity. \<^verbatim>\<open>time.time()\<close> is a parameter
  \<open>now\<close> of every operation that reads the clock; times are real numbers.
\<close>

record ('k, 'v) cache_manager =
  cache :: "('k, 'v) dict"
  timestamps :: "('k, real) dict"
  access_count :: "('k, nat) dict"
  max_size :: int

definition init_cm :: "int \<Rightarrow> ('k, 'v) cache_manager" where
  "init_cm m = \<lparr>cache = [], timestamps = [], access_count = [], max_size = m\<rparr>"

definition remove_cm :: "'k \<Rightarrow> ('k, 'v) cache_manager \<Rightarrow> ('k, 'v) cache_manager" where
  "remove_cm key c =
     c\<lparr>cache := AList.delete key (cache c),
       timestamps := AList.delete key (timestamps c),
       access_count := AList.delete key (access_count c)\<rparr>"

text \<open>The key function of \<^verbatim>\<open>_evict_lru\<close>: \<^verbatim>\<open>(self.access_count.get(x[0], 0), x[1])\<close>.\<close>

definition lru_rank :: "('k, 'v) cache_manager \<Rightarrow> 'k \<times> real \<Rightarrow> nat \<times> real" where
  "lru_rank c x = (dict_get (access_count c) (fst x) 0, snd x)"

definition evict_lru :: "('k, 'v) cache_manager \<Rightarrow> exn + ('k, 'v) cache_manager" where
  "evict_lru c =
     (if cache c = [] then Inr c
      else case py_min (lru_rank c) (timestamps c) of
             Inl e \<Rightarrow> Inl e
           | Inr item \<Rightarrow> Inr (remove_cm (fst item) c))"

text \<open>\<^verbatim>\<open>get\<close> returns the value or \<^verbatim>\<open>None\<close>, and the object as it leaves it.\<close>

definition get_cm ::
  "('k, 'v) cache_manager \<Rightarrow> 'k \<Rightarrow> int \<Rightarrow> real \<Rightarrow> 'v option \<times> ('k, 'v) cache_manager" where
  "get_cm c key ttl now =
     (case map_of (cache c) key of
        Some v \<Rightarrow>
          (if now - dict_get (timestamps c) key 0 < real_of_int ttl
           then (Some v,
                 c\<lparr>access_count :=
                     AList.update key (dict_get (access_count c) key 0 + 1) (access_count c)\<rparr>)
           else (None, remove_cm key c))
      | None \<Rightarrow> (None, c))"

text \<open>The three assignments that end \<^verbatim>\<open>set\<close>.\<close>

definition store_cm ::
  "'k \<Rightarrow> 'v \<Rightarrow> real \<Rightarrow> ('k, 'v) cache_manager \<Rightarrow> ('k, 'v) cache_manager" where
  "store_cm key v now c =
     c\<lparr>cache := AList.update key v (cache c),
       timestamps := AList.update key now (timestamps c),
       access_count := AList.update key 0 (access_count c)\<rparr>"

definition set_cm ::
  "('k, 'v) cache_manager \<Rightarrow> 'k \<Rightarrow> 'v \<Rightarrow> real \<Rightarrow> exn + ('k, 'v) cache_manager" where
  "set_cm c key v now =
     (if int (length (cache c)) \<ge> max_size c
      then (case evict_lru c of
              Inl e \<Rightarrow> Inl e
            | Inr c' \<Rightarrow> Inr (store_cm key v now c'))
      else Inr (store_cm key v now c))"

text \<open>
  \<^verbatim>\<open>clear\<close> has no \<^verbatim>\<open>return\<close> statement: the call evaluates to \<^verbatim>\<open>None\<close>. The
  count it computes goes to \<^verbatim>\<open>logger.info\<close> only. The result is the returned
  value, the count written to the log, and the object.
\<close>

definition clear_cm ::
  "('k, 'v) cache_manager \<Rightarrow> nat option \<times> nat \<times> ('k, 'v) cache_manager" where
  "clear_cm c =
     (let count = length (cache c)
      in (None, count, c\<lparr>cache := [], timestamps := [], access_count := []\<rparr>))"

definition stats_size :: "('k, 'v) cache_manager \<Rightarrow> nat" where
  "stats_size c = length (cache c)"

text \<open>Sequences of calls on one object; the first exception ends the sequence.\<close>

datatype ('k, 'v) cache_op = Get 'k int real | Set 'k 'v real | Clear

fun step_cm :: "('k, 'v) cache_op \<Rightarrow> ('k, 'v) cache_manager \<Rightarrow> exn + ('k, 'v) cache_manager" where
  "step_cm (Get key ttl now) c = Inr (snd (get_cm c key ttl now))"
| "step_cm (Set key v now) c = set_cm c key v now"
| "step_cm Clear c = Inr (snd (snd (clear_cm c)))"

fun run_cm :: "('k, 'v) cache_op list \<Rightarrow> ('k, 'v) cache_manager \<Rightarrow> exn + ('k, 'v) cache_manager" where
  "run_cm [] c = Inr c"
| "run_cm (x # xs) c = (case step_cm x c of Inl e \<Rightarrow> Inl e | Inr c' \<Rightarrow> run_cm xs c')"

text \<open>
  What every object built by the constructor and changed by its methods satisfies: the
  three dicts hold the same keys in the same order.
\<close>

definition wf_cm :: "('k, 'v) cache_manager \<Rightarrow> bool" where
  "wf_cm c \<longleftrightarrow>
     map fst (timestamps c) = map fst (cache c) \<and>
     map fst (access_count c) = map fst (cache c) \<and>
     distinct (map fst (cache c))"

text \<open>The capacity bound, for an object built with capacity \<open>m\<close>.\<close>

definition inv_cm :: "int \<Rightarrow> ('k, 'v) cache_manager \<Rightarrow> bool" where
  "inv_cm m c \<longleftrightarrow> wf_cm c \<and> max_size c = m \<and> int (length (cache c)) \<le> m"

text \<open>
  The object after \<^verbatim>\<open>set\<close> calls that evicted nothing, one call for each triple of key,
  value and clock reading, and those calls as a sequence of operations.
\<close>

definition filled :: "int \<Rightarrow> ('k \<times> 'v \<times> real) list \<Rightarrow> ('k, 'v) cache_manager" where
  "filled m ins =
     \<lparr>cache = map (\<lambda>x. (fst x, fst (snd x))) ins,
      timestamps = map (\<lambda>x. (fst x, snd (snd x))) ins,
      access_count = map (\<lambda>x. (fst x, 0)) ins,
      max_size = m\<rparr>"

definition set_ops :: "('k \<times> 'v \<times> real) list \<Rightarrow> ('k, 'v) cache_op list" where
  "set_ops ins = map (\<lambda>x. Set (fst x) (fst (snd x)) (snd (snd x))) ins"

text \<open>The entry of a key: its value, its timestamp and its access counter.\<close>

definition entry_of :: "('k, 'v) cache_manager \<Rightarrow> 'k \<Rightarrow> 'v option \<times> real option \<times> nat option" where
  "entry_of c k = (map_of (cache c) k, map_of (timestamps c) k, map_of (access_count c) k)"


section \<open>Dates and times\<close>

text \<open>
  A naive \<^verbatim>\<open>datetime\<close> is the number of microseconds of its wall clock since
  1970-01-01 00:00, and a \<^verbatim>\<open>timedelta\<close> is a number of microseconds.
\<close>

type_synonym datetime = int
type_synonym timedelta = int

definition td_minutes :: "int \<Rightarrow> timedelta" where
  "td_minutes n = n * 60000000"

definition td_hours :: "int \<Rightarrow> timedelta" where
  "td_hours n = n * 3600000000"

definition td_days :: "int \<Rightarrow> timedelta" where
  "td_days n = n * 86400000000"

text \<open>The proleptic Gregorian calendar of \<^verbatim>\<open>datetime\<close>: day number of a date and back.\<close>

definition is_leap :: "int \<Rightarrow> bool" where
  "is_leap y \<longleftrightarrow> y mod 4 = 0 \<and> (y mod 100 \<noteq> 0 \<or> y mod 400 = 0)"

definition days_in_month :: "int \<Rightarrow> int \<Rightarrow> int" where
  "days_in_month y m =
     (if m = 2 then (if is_leap y then 29 else 28)
      else if m = 4 \<or> m = 6 \<or> m = 9 \<or> m = 11 then 30 else 31)"

definition days_from_civil :: "int \<Rightarrow> int \<Rightarrow> int \<Rightarrow> int" where
  "days_from_civil y m d =
     (let y' = (if m \<le> 2 then y - 1 else y);
          era = y' div 400;
          yoe = y' - era * 400;
          doy = (153 * (if 2 < m then m - 3 else m + 9) + 2) div 5 + d - 1;
          doe = yoe * 365 + yoe div 4 - yoe div 100 + doy
      in era * 146097 + doe - 719468)"

definition month_from_days :: "int \<Rightarrow> int" where
  "month_from_days z0 =
     (let z = z0 + 719468;
          doe = z mod 146097;
          yoe = (doe - doe div 1460 + doe div 36524 - doe div 146096) div 365;
          doy = doe - (365 * yoe + yoe div 4 - yoe div 100);
          mp = (5 * doy + 2) div 153
      in if mp < 10 then mp + 3 else mp - 9)"

text \<open>
  The constructor \<^verbatim>\<open>datetime(year, month, day, hour, minute)\<close> of CPython on a 64-bit
  platform. It first converts each argument to a C \<^verbatim>\<open>int\<close>, in order, and raises
  \<^verbatim>\<open>OverflowError\<close> on one that does not fit; then it checks the ranges of the date
  fields and of the time fields and raises \<^verbatim>\<open>ValueError\<close>.
\<close>

definition c_int_error :: "int \<Rightarrow> exn option" where
  "c_int_error v =
     (if v < - (2 ^ 63) \<or> 2 ^ 63 - 1 < v
        then Some (OverflowError ''Python int too large to convert to C long'')
      else if 2 ^ 31 - 1 < v then Some (OverflowError ''signed integer is greater than maximum'')
      else if v < - (2 ^ 31) then Some (OverflowError ''signed integer is less than minimum'')
      else None)"

definition make_datetime :: "int \<Rightarrow> int \<Rightarrow> int \<Rightarrow> int \<Rightarrow> int \<Rightarrow> exn + datetime" where
  "make_datetime year month day hour minute =
     (case find (\<lambda>v. c_int_error v \<noteq> None) [year, month, day, hour, minute] of
        Some v \<Rightarrow> (case c_int_error v of Some e \<Rightarrow> Inl e | None \<Rightarrow> Inl (OverflowError []))
      | None \<Rightarrow>
          if year < 1 \<or> 9999 < year
            then Inl (ValueError (''year '' @ show_int year @ '' is out of range''))
          else if month < 1 \<or> 12 < month then Inl (ValueError ''month must be in 1..12'')
          else if day < 1 \<or> days_in_month year month < day
            then Inl (ValueError ''day is out of range for month'')
          else if hour < 0 \<or> 23 < hour then Inl (ValueError ''hour must be in 0..23'')
          else if minute < 0 \<or> 59 < minute then Inl (ValueError ''minute must be in 0..59'')
          else Inr (td_days (days_from_civil year month day) + td_hours hour + td_minutes minute))"

text \<open>
  The least and the greatest \<^verbatim>\<open>datetime\<close>, 0001-01-01 00:00:00 and
  9999-12-31 23:59:59.999999, and \<^verbatim>\<open>datetime + timedelta\<close>, which raises
  \<^verbatim>\<open>OverflowError\<close> when the sum leaves that range.
\<close>

definition datetime_min :: datetime where
  "datetime_min = td_days (days_from_civil 1 1 1)"

definition datetime_max :: datetime where
  "datetime_max = td_days (days_from_civil 9999 12 31 + 1) - 1"

definition datetime_add :: "datetime \<Rightarrow> timedelta \<Rightarrow> exn + datetime" where
  "datetime_add t d =
     (if t + d < datetime_min \<or> datetime_max < t + d
      then Inl (OverflowError ''date value out of range'')
      else Inr (t + d))"

text \<open>
  An aware \<^verbatim>\<open>datetime\<close>: the wall clock and the offset from UTC of its \<^verbatim>\<open>tzinfo\<close>.
  Two aware datetimes compare by their instants; adding a \<^verbatim>\<open>timedelta\<close> moves the
  wall clock and keeps the \<^verbatim>\<open>tzinfo\<close>.
\<close>

record aware =
  wall :: datetime
  utcoff :: timedelta

definition instant :: "aware \<Rightarrow> int" where
  "instant a = wall a - utcoff a"

definition aware_add :: "aware \<Rightarrow> timedelta \<Rightarrow> exn + aware" where
  "aware_add a d = (case datetime_add (wall a) d of Inl e \<Rightarrow> Inl e | Inr w \<Rightarrow> Inr (a\<lparr>wall := w\<rparr>))"

text \<open>
  \<^verbatim>\<open>TZ_VN.localize(dt)\<close> of pytz, for the zone \<^verbatim>\<open>Asia/Ho_Chi_Minh\<close>. The table of the
  zone, which comes with the library, is the parameter \<open>utcoffset\<close>: the offset that the zone
  gives to a wall-clock time. Before it reads the table, \<^verbatim>\<open>localize\<close> computes
  \<^verbatim>\<open>dt + timedelta(days=-1)\<close> and \<^verbatim>\<open>dt + timedelta(days=1)\<close>, so it raises
  \<^verbatim>\<open>OverflowError\<close> for a time on the first or on the last day of the calendar.
\<close>

definition localize :: "(datetime \<Rightarrow> timedelta) \<Rightarrow> datetime \<Rightarrow> exn + aware" where
  "localize utcoffset dt =
     (case datetime_add dt (td_days (- 1)) of
        Inl e \<Rightarrow> Inl e
      | Inr _ \<Rightarrow>
          (case datetime_add dt (td_days 1) of
             Inl e \<Rightarrow> Inl e
           | Inr _ \<Rightarrow> Inr \<lparr>wall = dt, utcoff = utcoffset dt\<rparr>))"

text \<open>\<^verbatim>\<open>.date()\<close> (as a day number), \<^verbatim>\<open>.hour\<close>, \<^verbatim>\<open>.month\<close>, \<^verbatim>\<open>.dayofweek\<close> (Monday is 0).\<close>

definition date_of :: "datetime \<Rightarrow> int" where
  "date_of t = t div 86400000000"

definition hour_of :: "datetime \<Rightarrow> int" where
  "hour_of t = (t div 3600000000) mod 24"

definition month_of :: "datetime \<Rightarrow> int" where
  "month_of t = month_from_days (date_of t)"

definition dayofweek_of :: "datetime \<Rightarrow> int" where
  "dayofweek_of t = (date_of t + 3) mod 7"


section \<open>api/routes.py: validate\_prediction\_request\<close>

datatype error_code = FUTURE_TIME | TIME_TOO_RECENT | TIME_TOO_OLD

text \<open>
  The fourth component of the returned tuple: the \<^verbatim>\<open>details\<close> dict of a rejection, whose
  formatted strings and rounded binary floats are left out, or the \<^verbatim>\<open>info\<close> dict of an
  accepted request, with the wall clocks that the source formats with \<^verbatim>\<open>strftime\<close>. The
  message, third in the tuple, is left out.
\<close>

datatype info_dict =
    Details
  | Window_info (info_target_time: datetime) (info_prediction_for: datetime)
      (info_t_minus_2: datetime) (info_t_minus_1: datetime) (info_t_minus_0: datetime)

text \<open>
  The function, with \<^verbatim>\<open>datetime.now(TZ_VN)\<close> as the parameter \<open>now\<close>. Every sum of a
  datetime and a timedelta is computed where the source computes it, so that its
  \<^verbatim>\<open>OverflowError\<close> is raised there.
\<close>

definition validate_prediction_request ::
  "(datetime \<Rightarrow> timedelta) \<Rightarrow> aware \<Rightarrow> int \<Rightarrow> int \<Rightarrow> int \<Rightarrow> int \<Rightarrow> int \<Rightarrow>
   exn + (bool \<times> error_code option \<times> info_dict)" where
  "validate_prediction_request utcoffset now year month day hour minute =
     (case make_datetime year month day hour minute of Inl e \<Rightarrow> Inl e | Inr naive \<Rightarrow>
      case localize utcoffset naive of Inl e \<Rightarrow> Inl e | Inr target_time \<Rightarrow>
      case aware_add target_time (td_hours 1) of Inl e \<Rightarrow> Inl e | Inr prediction_time \<Rightarrow>
      if instant target_time > instant now then Inr (False, Some FUTURE_TIME, Details)
      else
      case aware_add now (- td_minutes 30) of Inl e \<Rightarrow> Inl e | Inr safe_time \<Rightarrow>
      if instant target_time > instant safe_time then Inr (False, Some TIME_TOO_RECENT, Details)
      else
      case aware_add now (- td_days 90) of Inl e \<Rightarrow> Inl e | Inr oldest_allowed \<Rightarrow>
      if instant target_time < instant oldest_allowed then Inr (False, Some TIME_TOO_OLD, Details)
      else
      case aware_add target_time (- td_hours 2) of Inl e \<Rightarrow> Inl e | Inr t_minus_2 \<Rightarrow>
      case aware_add target_time (- td_hours 1) of Inl e \<Rightarrow> Inl e | Inr t_minus_1 \<Rightarrow>
      Inr (True, None,
           Window_info (wall target_time) (wall prediction_time) (wall t_minus_2)
             (wall t_minus_1) (wall target_time)))"


section \<open>core/data\_fetcher.py\<close>

text \<open>
  The weather of one hour. The two providers are parameters: each is the source function
  of that name, with its HTTP call and its use of the cache inside.
\<close>

record weather =
  w_temperature_2m :: "real option"
  w_relative_humidity_2m :: "real option"
  w_precipitation :: "real option"
  w_pressure_msl :: "real option"
  w_windspeed_10m :: "real option"
  w_winddirection_10m :: "real option"
  w_shortwave_radiation :: "real option"

definition fetch_weather_at_time ::
  "(datetime \<Rightarrow> real \<Rightarrow> real \<Rightarrow> exn + weather) \<Rightarrow> (datetime \<Rightarrow> real \<Rightarrow> real \<Rightarrow> exn + weather) \<Rightarrow>
   datetime \<Rightarrow> datetime \<Rightarrow> real \<Rightarrow> real \<Rightarrow> exn + weather" where
  "fetch_weather_at_time fetch_weather_forecast fetch_weather_archive now_vn target_time_vn lat lon =
     (if date_of target_time_vn \<ge> date_of now_vn
      then fetch_weather_forecast target_time_vn lat lon
      else fetch_weather_archive target_time_vn lat lon)"


text \<open>
  \<^verbatim>\<open>get_15_features_at_time\<close> returns a dict of the time and fifteen measurements: the
  eight of the air-quality provider, then the seven of the weather provider. A
  measurement is a float, \<open>None\<close> for NaN.
\<close>

record snapshot =
  datetime :: datetime
  co :: "real option"
  no :: "real option"
  no2 :: "real option"
  o3 :: "real option"
  so2 :: "real option"
  pm2_5 :: "real option"
  pm10 :: "real option"
  nh3 :: "real option"
  temperature_2m :: "real option"
  relative_humidity_2m :: "real option"
  precipitation :: "real option"
  pressure_msl :: "real option"
  windspeed_10m :: "real option"
  winddirection_10m :: "real option"
  shortwave_radiation :: "real option"


text \<open>
  The measurements of the air-quality provider, and \<^verbatim>\<open>get_15_features_at_time\<close>. The
  two fetchers are parameters: \<open>fetch_air_quality\<close> is \<^verbatim>\<open>fetch_air_quality_at_time\<close> and
  \<open>weather_at_time\<close> is \<^verbatim>\<open>fetch_weather_at_time\<close>, each with its clock, its HTTP calls and
  its use of the cache inside. \<^verbatim>\<open>astimezone(pytz.UTC)\<close> subtracts the offset from the wall
  clock and raises \<^verbatim>\<open>OverflowError\<close> when the result is no datetime; the timestamp is
  the instant in seconds (the instants here are whole seconds).
\<close>

record air =
  a_co :: "real option"
  a_no :: "real option"
  a_no2 :: "real option"
  a_o3 :: "real option"
  a_so2 :: "real option"
  a_pm2_5 :: "real option"
  a_pm10 :: "real option"
  a_nh3 :: "real option"

definition astimezone_utc :: "aware \<Rightarrow> exn + datetime" where
  "astimezone_utc a =
     (if instant a < datetime_min \<or> datetime_max < instant a
      then Inl (OverflowError ''date value out of range'')
      else Inr (instant a))"

definition get_15_features_at_time ::
  "(int \<Rightarrow> string \<Rightarrow> real \<Rightarrow> real \<Rightarrow> exn + air) \<Rightarrow> (aware \<Rightarrow> real \<Rightarrow> real \<Rightarrow> exn + weather) \<Rightarrow>
   aware \<Rightarrow> string \<Rightarrow> real \<Rightarrow> real \<Rightarrow> exn + snapshot" where
  "get_15_features_at_time fetch_air_quality weather_at_time target_time_vn api_key lat lon =
     bind_exn (astimezone_utc target_time_vn) (\<lambda>target_utc.
     let timestamp_utc = target_utc div 1000000 in
     bind_exn (fetch_air_quality timestamp_utc api_key lat lon) (\<lambda>air_data.
     bind_exn (weather_at_time target_time_vn lat lon) (\<lambda>weather_data.
     Inr \<lparr>datetime = wall target_time_vn,
          co = a_co air_data, no = a_no air_data, no2 = a_no2 air_data, o3 = a_o3 air_data,
          so2 = a_so2 air_data, pm2_5 = a_pm2_5 air_data, pm10 = a_pm10 air_data,
          nh3 = a_nh3 air_data,
          temperature_2m = w_temperature_2m weather_data,
          relative_humidity_2m = w_relative_humidity_2m weather_data,
          precipitation = w_precipitation weather_data,
          pressure_msl = w_pressure_msl weather_data,
          windspeed_10m = w_windspeed_10m weather_data,
          winddirection_10m = w_winddirection_10m weather_data,
          shortwave_radiation = w_shortwave_radiation weather_data\<rparr>)))"


section \<open>core/feature\_engineering.py\<close>

text \<open>
  A \<^verbatim>\<open>DataFrame\<close> with a datetime index: the index and the columns in their order,
  each column a series of floats with \<open>None\<close> for NaN. A well-shaped frame has as
  many values in every column as it has index entries.
\<close>

text \<open>
  Floats are real numbers here: the rounding of binary floating point is not modelled,
  and the infinities do not occur.
\<close>

record frame =
  index :: "datetime list"
  columns :: "(string, real option list) dict"

definition wf_frame :: "frame \<Rightarrow> bool" where
  "wf_frame df \<longleftrightarrow> list_all (\<lambda>c. length (snd c) = length (index df)) (columns df)"

definition n_rows :: "frame \<Rightarrow> nat" where
  "n_rows df = length (index df)"

definition column :: "frame \<Rightarrow> string \<Rightarrow> real option list" where
  "column df name = dict_get (columns df) name []"

text \<open>Selecting rows by position: the rows of \<open>df\<close> at the positions \<open>ps\<close>, in that order.\<close>

definition take_rows :: "nat list \<Rightarrow> frame \<Rightarrow> frame" where
  "take_rows ps df =
     \<lparr>index = map (\<lambda>i. index df ! i) ps,
      columns = map (\<lambda>c. (fst c, map (\<lambda>i. snd c ! i) ps)) (columns df)\<rparr>"

text \<open>\<^verbatim>\<open>sort_index()\<close>: ascending by index label; rows with equal labels keep their order.\<close>

definition sort_index :: "frame \<Rightarrow> frame" where
  "sort_index df = take_rows (sort_key (\<lambda>i. index df ! i) [0..<n_rows df]) df"

text \<open>\<^verbatim>\<open>dropna()\<close> keeps the rows without NaN; \<^verbatim>\<open>tail(1)\<close> keeps the last row.\<close>

definition dropna :: "frame \<Rightarrow> frame" where
  "dropna df =
     take_rows (filter (\<lambda>i. list_all (\<lambda>c. snd c ! i \<noteq> None) (columns df)) [0..<n_rows df]) df"

definition tail :: "nat \<Rightarrow> frame \<Rightarrow> frame" where
  "tail n df = take_rows [n_rows df - n..<n_rows df] df"

text \<open>Series operations: \<^verbatim>\<open>shift\<close>, \<^verbatim>\<open>diff\<close>, \<^verbatim>\<open>rolling(window, min_periods)\<close>.\<close>

definition shift :: "nat \<Rightarrow> real option list \<Rightarrow> real option list" where
  "shift n xs = replicate (min n (length xs)) None @ take (length xs - n) xs"

definition lift2 :: "(real \<Rightarrow> real \<Rightarrow> real) \<Rightarrow> real option \<Rightarrow> real option \<Rightarrow> real option" where
  "lift2 f a b = (case a of None \<Rightarrow> None | Some x \<Rightarrow> (case b of None \<Rightarrow> None | Some y \<Rightarrow> Some (f x y)))"

definition diff :: "nat \<Rightarrow> real option list \<Rightarrow> real option list" where
  "diff n xs = map2 (lift2 (\<lambda>x y. x - y)) xs (shift n xs)"

definition window :: "nat \<Rightarrow> 'a list \<Rightarrow> nat \<Rightarrow> 'a list" where
  "window w xs i = drop (Suc i - w) (take (Suc i) xs)"

definition observed :: "real option list \<Rightarrow> real list" where
  "observed ws = map the (filter (\<lambda>v. v \<noteq> None) ws)"

definition rolling ::
  "nat \<Rightarrow> nat \<Rightarrow> (real list \<Rightarrow> real option) \<Rightarrow> real option list \<Rightarrow> real option list" where
  "rolling w min_periods agg xs =
     map (\<lambda>i. let obs = observed (window w xs i)
              in if min_periods \<le> length obs then agg obs else None) [0..<length xs]"

definition mean :: "real list \<Rightarrow> real" where
  "mean xs = sum_list xs / real (length xs)"

definition agg_mean :: "real list \<Rightarrow> real option" where
  "agg_mean obs = (if obs = [] then None else Some (mean obs))"

text \<open>The sample standard deviation (one degree of freedom): NaN on fewer than two values.\<close>

definition agg_std :: "real list \<Rightarrow> real option" where
  "agg_std obs =
     (if length obs \<le> 1 then None
      else Some (sqrt (sum_list (map (\<lambda>x. (x - mean obs)\<^sup>2) obs) / real (length obs - 1))))"

definition agg_min :: "real list \<Rightarrow> real option" where
  "agg_min obs = (if obs = [] then None else Some (min_list obs))"

definition agg_sum :: "real list \<Rightarrow> real option" where
  "agg_sum obs = (if obs = [] then None else Some (sum_list obs))"

definition deg2rad :: "real \<Rightarrow> real" where
  "deg2rad x = x * pi / 180"

text \<open>\<^verbatim>\<open>1 if x in rainy_season_months else 0\<close>, for the months May to October.\<close>

definition is_rainy_season :: "int \<Rightarrow> real" where
  "is_rainy_season m = (if m \<in> {5, 6, 7, 8, 9, 10} then 1 else 0)"

definition original_cols :: "string list" where
  "original_cols =
     [''temperature_2m'', ''relative_humidity_2m'', ''precipitation'',
      ''pressure_msl'', ''windspeed_10m'', ''shortwave_radiation'',
      ''co'', ''no'', ''no2'', ''o3'', ''so2'', ''pm10'', ''nh3'']"

text \<open>
  The columns that the function reads with \<^verbatim>\<open>df[...]\<close>, in the order of their first
  read; the read of a column that the frame does not have raises \<^verbatim>\<open>KeyError\<close>.
\<close>

definition read_cols :: "string list" where
  "read_cols =
     [''pm2_5'', ''so2'', ''co'', ''shortwave_radiation'', ''temperature_2m'',
      ''relative_humidity_2m'', ''windspeed_10m'', ''precipitation'', ''pressure_msl'',
      ''no'', ''no2'', ''o3'', ''pm10'', ''nh3'', ''winddirection_10m'']"

definition first_missing :: "frame \<Rightarrow> string list \<Rightarrow> string option" where
  "first_missing df names = find (\<lambda>n. map_of (columns df) n = None) names"

text \<open>
  The forty assignments \<^verbatim>\<open>df_features[name] = ...\<close> in the order of the source, for a
  frame \<open>df\<close> that has every column read.
\<close>

definition feature_columns_of :: "frame \<Rightarrow> (string, real option list) dict" where
  "feature_columns_of df =
     (let hours = map hour_of (index df);
          days = map dayofweek_of (index df);
          months = map month_of (index df);
          wind_dir_rad = map (map_option deg2rad) (column df ''winddirection_10m'');
          wind_speed = column df ''windspeed_10m''
      in
      [(''pm2_5_lag_1'', shift 1 (column df ''pm2_5'')),
       (''pm2_5_lag_2'', shift 2 (column df ''pm2_5'')),
       (''so2_lag_1'', shift 1 (column df ''so2'')),
       (''co_lag_1'', shift 1 (column df ''co'')),
       (''radiation_lag_1'', shift 1 (column df ''shortwave_radiation'')),
       (''pm2_5_roll_avg_3hr'', rolling 3 1 agg_mean (column df ''pm2_5'')),
       (''pm2_5_roll_std_3hr'', rolling 3 1 agg_std (column df ''pm2_5'')),
       (''temp_roll_avg_3hr'', rolling 3 1 agg_mean (column df ''temperature_2m'')),
       (''humid_roll_avg_3hr'', rolling 3 1 agg_mean (column df ''relative_humidity_2m'')),
       (''so2_roll_avg_3hr'', rolling 3 1 agg_mean (column df ''so2'')),
       (''wind_roll_avg_3hr'', rolling 3 1 agg_mean (column df ''windspeed_10m'')),
       (''wind_roll_min_3hr'', rolling 3 1 agg_min (column df ''windspeed_10m'')),
       (''co_roll_avg_3hr'', rolling 3 1 agg_mean (column df ''co'')),
       (''precip_roll_sum_3hr'', rolling 3 1 agg_sum (column df ''precipitation'')),
       (''pm2_5_diff_1hr'', diff 1 (column df ''pm2_5'')),
       (''temp_diff_1hr'', diff 1 (column df ''temperature_2m'')),
       (''humid_diff_1hr'', diff 1 (column df ''relative_humidity_2m''))]
      @ map (\<lambda>col. (col, column df col)) original_cols
      @ [(''is_rainy_season'', map (\<lambda>m. Some (is_rainy_season m)) months),
         (''hour_sin'', map (\<lambda>h. Some (sin (2 * pi * real_of_int h / 24))) hours),
         (''hour_cos'', map (\<lambda>h. Some (cos (2 * pi * real_of_int h / 24))) hours),
         (''month_sin'', map (\<lambda>m. Some (sin (2 * pi * real_of_int m / 12))) months),
         (''month_cos'', map (\<lambda>m. Some (cos (2 * pi * real_of_int m / 12))) months),
         (''day_of_week_sin'', map (\<lambda>d. Some (sin (2 * pi * real_of_int d / 7))) days),
         (''day_of_week_cos'', map (\<lambda>d. Some (cos (2 * pi * real_of_int d / 7))) days),
         (''temp_humidity'',
          map2 (lift2 (\<lambda>x y. x * y)) (column df ''temperature_2m'') (column df ''relative_humidity_2m'')),
         (''wind_U'', map2 (lift2 (\<lambda>s r. s * cos r)) wind_speed wind_dir_rad),
         (''wind_V'', map2 (lift2 (\<lambda>s r. s * sin r)) wind_speed wind_dir_rad)])"

definition create_features_from_3hours :: "frame \<Rightarrow> exn + frame" where
  "create_features_from_3hours df_3hours =
     (if n_rows df_3hours < 3
      then Inl (ValueError (''Need 3 hours of data, got '' @ digits (n_rows df_3hours)))
      else case first_missing df_3hours read_cols of
             Some k \<Rightarrow> Inl (key_error k)
           | None \<Rightarrow>
               let df = sort_index df_3hours;
                   df_features = dropna \<lparr>index = index df, columns = feature_columns_of df\<rparr>
               in if n_rows df_features = 0
                  then Inl (ValueError ''Insufficient data to create features'')
                  else Inr (tail 1 df_features))"


subsection \<open>The function on objects\<close>

text \<open>
  The same function with its frames as objects of a store: a reference is a position
  of the store, and every pandas call that returns a new frame (\<^verbatim>\<open>sort_index()\<close>,
  \<^verbatim>\<open>copy()\<close>, the constructor, \<^verbatim>\<open>dropna()\<close>, \<^verbatim>\<open>tail(1)\<close>) allocates one. Only
  \<^verbatim>\<open>df_features[name] = ...\<close> writes to an object that exists. The list \<open>reads_of\<close>
  gives, for each of the forty assignments, the columns of \<open>df\<close> read since the
  assignment before it; a \<^verbatim>\<open>KeyError\<close> leaves \<open>df_features\<close> with the columns assigned
  before the failing read.
\<close>

type_synonym heap = "frame list"
type_synonym ref = nat

definition alloc :: "heap \<Rightarrow> frame \<Rightarrow> heap \<times> ref" where
  "alloc h ob = (h @ [ob], length h)"

definition reads_of :: "string list list" where
  "reads_of =
     [[''pm2_5''], [''pm2_5''], [''so2''], [''co''], [''shortwave_radiation''],
      [''pm2_5''], [], [''temperature_2m''], [''relative_humidity_2m''], [''so2''],
      [''windspeed_10m''], [], [''co''], [''precipitation''],
      [''pm2_5''], [''temperature_2m''], [''relative_humidity_2m'']]
     @ map (\<lambda>col. [col]) original_cols
     @ [[], [], [], [], [], [], [],
        [''temperature_2m'', ''relative_humidity_2m''],
        [''winddirection_10m'', ''windspeed_10m''], []]"

definition assigned_before :: "frame \<Rightarrow> nat" where
  "assigned_before df =
     length (takeWhile (list_all (\<lambda>n. map_of (columns df) n \<noteq> None)) reads_of)"

definition create_features_from_3hours_in :: "heap \<Rightarrow> ref \<Rightarrow> heap \<times> (exn + ref)" where
  "create_features_from_3hours_in h df_3hours =
     (if n_rows (h ! df_3hours) < 3
      then (h, Inl (ValueError (''Need 3 hours of data, got '' @ digits (n_rows (h ! df_3hours)))))
      else if map_of (columns (h ! df_3hours)) ''pm2_5'' = None
      then (h, Inl (key_error ''pm2_5''))
      else
        let (h, sorted_df) = alloc h (sort_index (h ! df_3hours));
            (h, df) = alloc h (h ! sorted_df);
            (h, df_features) = alloc h \<lparr>index = index (h ! df), columns = []\<rparr>
        in case first_missing (h ! df) read_cols of
             Some k \<Rightarrow>
               (h[df_features := (h ! df_features)
                    \<lparr>columns := take (assigned_before (h ! df)) (feature_columns_of (h ! df))\<rparr>],
                Inl (key_error k))
           | None \<Rightarrow>
               let h = h[df_features := (h ! df_features)\<lparr>columns := feature_columns_of (h ! df)\<rparr>];
                   (h, df_features) = alloc h (dropna (h ! df_features))
               in if n_rows (h ! df_features) = 0
                  then (h, Inl (ValueError ''Insufficient data to create features''))
                  else let (h, result) = alloc h (tail 1 (h ! df_features))
                       in (h, Inr result))"


section \<open>core/predictor.py: the three-hour window\<close>

text \<open>
  \<^verbatim>\<open>pd.DataFrame([features_t2, features_t1, features_t0]).set_index("datetime")\<close>: the
  frame of a list of snapshots, indexed by their times, with the fifteen measurements as
  columns in the order of the dict.
\<close>

definition frame_of_snapshots :: "snapshot list \<Rightarrow> frame" where
  "frame_of_snapshots rows =
     \<lparr>index = map datetime rows,
      columns =
        [(''co'', map co rows), (''no'', map no rows), (''no2'', map no2 rows),
         (''o3'', map o3 rows), (''so2'', map so2 rows), (''pm2_5'', map pm2_5 rows),
         (''pm10'', map pm10 rows), (''nh3'', map nh3 rows),
         (''temperature_2m'', map temperature_2m rows),
         (''relative_humidity_2m'', map relative_humidity_2m rows),
         (''precipitation'', map precipitation rows),
         (''pressure_msl'', map pressure_msl rows),
         (''windspeed_10m'', map windspeed_10m rows),
         (''winddirection_10m'', map winddirection_10m rows),
         (''shortwave_radiation'', map shortwave_radiation rows)]\<rparr>"

text \<open>A snapshot with no NaN among its measurements.\<close>

definition complete :: "snapshot \<Rightarrow> bool" where
  "complete r \<longleftrightarrow>
     co r \<noteq> None \<and> no r \<noteq> None \<and> no2 r \<noteq> None \<and> o3 r \<noteq> None \<and> so2 r \<noteq> None \<and>
     pm2_5 r \<noteq> None \<and> pm10 r \<noteq> None \<and> nh3 r \<noteq> None \<and> temperature_2m r \<noteq> None \<and>
     relative_humidity_2m r \<noteq> None \<and> precipitation r \<noteq> None \<and> pressure_msl r \<noteq> None \<and>
     windspeed_10m r \<noteq> None \<and> winddirection_10m r \<noteq> None \<and> shortwave_radiation r \<noteq> None"

text \<open>
  The forty columns that \<open>feature_columns_of\<close> computes for the frame of three
  snapshots, written out.
\<close>

definition features3 :: "snapshot \<Rightarrow> snapshot \<Rightarrow> snapshot \<Rightarrow> (string, real option list) dict" where
  "features3 r2 r1 r0 =
    [(''pm2_5_lag_1'', [None, pm2_5 r2, pm2_5 r1]),
     (''pm2_5_lag_2'', [None, None, pm2_5 r2]),
     (''so2_lag_1'', [None, so2 r2, so2 r1]),
     (''co_lag_1'', [None, co r2, co r1]),
     (''radiation_lag_1'', [None, shortwave_radiation r2, shortwave_radiation r1]),
     (''pm2_5_roll_avg_3hr'', rolling 3 1 agg_mean [pm2_5 r2, pm2_5 r1, pm2_5 r0]),
     (''pm2_5_roll_std_3hr'', rolling 3 1 agg_std [pm2_5 r2, pm2_5 r1, pm2_5 r0]),
     (''temp_roll_avg_3hr'',
      rolling 3 1 agg_mean [temperature_2m r2, temperature_2m r1, temperature_2m r0]),
     (''humid_roll_avg_3hr'',
      rolling 3 1 agg_mean
        [relative_humidity_2m r2, relative_humidity_2m r1, relative_humidity_2m r0]),
     (''so2_roll_avg_3hr'', rolling 3 1 agg_mean [so2 r2, so2 r1, so2 r0]),
     (''wind_roll_avg_3hr'',
      rolling 3 1 agg_mean [windspeed_10m r2, windspeed_10m r1, windspeed_10m r0]),
     (''wind_roll_min_3hr'',
      rolling 3 1 agg_min [windspeed_10m r2, windspeed_10m r1, windspeed_10m r0]),
     (''co_roll_avg_3hr'', rolling 3 1 agg_mean [co r2, co r1, co r0]),
     (''precip_roll_sum_3hr'',
      rolling 3 1 agg_sum [precipitation r2, precipitation r1, precipitation r0]),
     (''pm2_5_diff_1hr'',
      [None, lift2 (\<lambda>x y. x - y) (pm2_5 r1) (pm2_5 r2), lift2 (\<lambda>x y. x - y) (pm2_5 r0) (pm2_5 r1)]),
     (''temp_diff_1hr'',
      [None, lift2 (\<lambda>x y. x - y) (temperature_2m r1) (temperature_2m r2),
       lift2 (\<lambda>x y. x - y) (temperature_2m r0) (temperature_2m r1)]),
     (''humid_diff_1hr'',
      [None, lift2 (\<lambda>x y. x - y) (relative_humidity_2m r1) (relative_humidity_2m r2),
       lift2 (\<lambda>x y. x - y) (relative_humidity_2m r0) (relative_humidity_2m r1)]),
     (''temperature_2m'', [temperature_2m r2, temperature_2m r1, temperature_2m r0]),
     (''relative_humidity_2m'',
      [relative_humidity_2m r2, relative_humidity_2m r1, relative_humidity_2m r0]),
     (''precipitation'', [precipitation r2, precipitation r1, precipitation r0]),
     (''pressure_msl'', [pressure_msl r2, pressure_msl r1, pressure_msl r0]),
     (''windspeed_10m'', [windspeed_10m r2, windspeed_10m r1, windspeed_10m r0]),
     (''shortwave_radiation'',
      [shortwave_radiation r2, shortwave_radiation r1, shortwave_radiation r0]),
     (''co'', [co r2, co r1, co r0]),
     (''no'', [no r2, no r1, no r0]),
     (''no2'', [no2 r2, no2 r1, no2 r0]),
     (''o3'', [o3 r2, o3 r1, o3 r0]),
     (''so2'', [so2 r2, so2 r1, so2 r0]),
     (''pm10'', [pm10 r2, pm10 r1, pm10 r0]),
     (''nh3'', [nh3 r2, nh3 r1, nh3 r0]),
     (''is_rainy_season'', map (\<lambda>r. Some (is_rainy_season (month_of (datetime r)))) [r2, r1, r0]),
     (''hour_sin'',
      map (\<lambda>r. Some (sin (2 * pi * real_of_int (hour_of (datetime r)) / 24))) [r2, r1, r0]),
     (''hour_cos'',
      map (\<lambda>r. Some (cos (2 * pi * real_of_int (hour_of (datetime r)) / 24))) [r2, r1, r0]),
     (''month_sin'',
      map (\<lambda>r. Some (sin (2 * pi * real_of_int (month_of (datetime r)) / 12))) [r2, r1, r0]),
     (''month_cos'',
      map (\<lambda>r. Some (cos (2 * pi * real_of_int (month_of (datetime r)) / 12))) [r2, r1, r0]),
     (''day_of_week_sin'',
      map (\<lambda>r. Some (sin (2 * pi * real_of_int (dayofweek_of (datetime r)) / 7))) [r2, r1, r0]),
     (''day_of_week_cos'',
      map (\<lambda>r. Some (cos (2 * pi * real_of_int (dayofweek_of (datetime r)) / 7))) [r2, r1, r0]),
     (''temp_humidity'',
      map (\<lambda>r. lift2 (\<lambda>x y. x * y) (temperature_2m r) (relative_humidity_2m r)) [r2, r1, r0]),
     (''wind_U'',
      map (\<lambda>r. lift2 (\<lambda>s d. s * cos d) (windspeed_10m r) (map_option deg2rad (winddirection_10m r)))
        [r2, r1, r0]),
     (''wind_V'',
      map (\<lambda>r. lift2 (\<lambda>s d. s * sin d) (windspeed_10m r) (map_option deg2rad (winddirection_10m r)))
        [r2, r1, r0])]"


section \<open>core/predictor.py: predict\_pm25\_for\_district\<close>

text \<open>
  A district dict: each field is the value under the key of that name, \<open>None\<close> when the
  dict has no such key.
\<close>

record district =
  d_id :: "int option"
  d_name :: "string option"
  d_name_en :: "string option"
  d_lat :: "real option"
  d_lon :: "real option"
  d_population :: "int option"
  d_area_km2 :: "real option"
  d_type :: "string option"

text \<open>
  The returned dict, which has one of two shapes: the success dict, with the optional
  \<^verbatim>\<open>raw_data\<close>, and the error dict. The value under \<^verbatim>\<open>status\<close> is fixed by the shape.
\<close>

record raw_data =
  timestamp :: string
  air_quality :: "(string, real option) dict"
  weather :: "(string, real option) dict"

datatype prediction_result =
    Success (res_id: int) (res_name: string) (res_name_en: string) (res_lat: real) (res_lon: real)
      (pm25_prediction: real) (population: int) (area_km2: real) (res_type: string)
      (res_raw_data: "raw_data option")
  | Failure (res_id: int) (res_name: string) (res_name_en: string) (res_lat: real) (res_lon: real)
      (error: string) (error_type: string)

fun status :: "prediction_result \<Rightarrow> string" where
  "status (Success _ _ _ _ _ _ _ _ _ _) = ''success''"
| "status (Failure _ _ _ _ _ _ _) = ''error''"

text \<open>
  \<^verbatim>\<open>df_features[feature_columns]\<close>, run when the list is neither \<^verbatim>\<open>None\<close> nor empty: the
  frame of the named columns, or a \<^verbatim>\<open>KeyError\<close> that names the columns missing, in words
  that pandas chooses (the parameter \<open>missing_message\<close>).
\<close>

definition select_columns ::
  "(string list \<Rightarrow> string) \<Rightarrow> string list \<Rightarrow> frame \<Rightarrow> exn + frame" where
  "select_columns missing_message names df =
     (case filter (\<lambda>n. map_of (columns df) n = None) names of
        [] \<Rightarrow> Inr (df\<lparr>columns := map (\<lambda>n. (n, column df n)) names\<rparr>)
      | missing \<Rightarrow> Inl (Exn ''KeyError'' (missing_message missing)))"

definition select_features ::
  "(string list \<Rightarrow> string) \<Rightarrow> string list option \<Rightarrow> frame \<Rightarrow> exn + frame" where
  "select_features missing_message feature_columns df_features =
     (case feature_columns of
        None \<Rightarrow> Inr df_features
      | Some names \<Rightarrow> if names = [] then Inr df_features
                      else select_columns missing_message names df_features)"

text \<open>
  The body of the \<^verbatim>\<open>try\<close> statement. The zone table, the two fetchers, the scaler, the
  model (\<open>model_predict\<close> is \<^verbatim>\<open>float(model.predict(X)[0])\<close>), \<^verbatim>\<open>round(x, 2)\<close> on a float and
  \<^verbatim>\<open>isoformat()\<close> are parameters. Every statement that can raise is a step of the
  sequence, in the order of the source; the calls of the loggers only write to the log
  and are left out.
\<close>

definition try_block ::
  "(datetime \<Rightarrow> timedelta) \<Rightarrow> (int \<Rightarrow> string \<Rightarrow> real \<Rightarrow> real \<Rightarrow> exn + air) \<Rightarrow>
   (aware \<Rightarrow> real \<Rightarrow> real \<Rightarrow> exn + weather) \<Rightarrow> (string list \<Rightarrow> string) \<Rightarrow>
   (frame \<Rightarrow> exn + 'x) \<Rightarrow> ('x \<Rightarrow> exn + real) \<Rightarrow> (real \<Rightarrow> real) \<Rightarrow> (aware \<Rightarrow> string) \<Rightarrow>
   district \<Rightarrow> int \<Rightarrow> int \<Rightarrow> int \<Rightarrow> int \<Rightarrow> int \<Rightarrow> string \<Rightarrow> string list option \<Rightarrow> bool \<Rightarrow>
   exn + prediction_result" where
  "try_block utcoffset fetch_air_quality weather_at_time missing_message scaler_transform
     model_predict round2 isoformat district year month day hour minute api_key feature_columns
     include_raw_data =
     bind_exn (make_datetime year month day hour minute) (\<lambda>naive.
     bind_exn (localize utcoffset naive) (\<lambda>target_time.
     bind_exn (aware_add target_time (- td_hours 1)) (\<lambda>time_t1.
     bind_exn (aware_add target_time (- td_hours 2)) (\<lambda>time_t2.
     bind_exn (subscript ''lat'' (d_lat district)) (\<lambda>lat.
     bind_exn (subscript ''lon'' (d_lon district)) (\<lambda>lon.
     bind_exn (get_15_features_at_time fetch_air_quality weather_at_time time_t2 api_key lat lon)
       (\<lambda>features_t2.
     bind_exn (get_15_features_at_time fetch_air_quality weather_at_time time_t1 api_key lat lon)
       (\<lambda>features_t1.
     bind_exn (get_15_features_at_time fetch_air_quality weather_at_time target_time api_key lat lon)
       (\<lambda>features_t0.
     let df_3hours = sort_index (frame_of_snapshots [features_t2, features_t1, features_t0]) in
     if n_rows df_3hours \<noteq> 3
     then Inl (ValueError (''Expected 3 hours of data, got '' @ digits (n_rows df_3hours)))
     else
     bind_exn (create_features_from_3hours df_3hours) (\<lambda>df_features.
     bind_exn (select_features missing_message feature_columns df_features) (\<lambda>df_features.
     bind_exn (scaler_transform df_features) (\<lambda>X_scaled.
     bind_exn (model_predict X_scaled) (\<lambda>prediction.
     bind_exn (subscript ''id'' (d_id district)) (\<lambda>r_id.
     bind_exn (subscript ''name'' (d_name district)) (\<lambda>r_name.
     bind_exn (subscript ''name_en'' (d_name_en district)) (\<lambda>r_name_en.
     bind_exn (subscript ''population'' (d_population district)) (\<lambda>r_population.
     bind_exn (subscript ''area_km2'' (d_area_km2 district)) (\<lambda>r_area_km2.
     bind_exn (subscript ''type'' (d_type district)) (\<lambda>r_type.
     Inr (Success r_id r_name r_name_en lat lon (round2 prediction) r_population r_area_km2 r_type
            (if include_raw_data
             then Some \<lparr>timestamp = isoformat target_time,
                        air_quality =
                          [(''co'', map_option round2 (co features_t0)),
                           (''no'', map_option round2 (no features_t0)),
                           (''no2'', map_option round2 (no2 features_t0)),
                           (''o3'', map_option round2 (o3 features_t0)),
                           (''so2'', map_option round2 (so2 features_t0)),
                           (''pm2_5'', map_option round2 (pm2_5 features_t0)),
                           (''pm10'', map_option round2 (pm10 features_t0)),
                           (''nh3'', map_option round2 (nh3 features_t0))],
                        weather =
                          [(''temperature_2m'', map_option round2 (temperature_2m features_t0)),
                           (''relative_humidity_2m'',
                            map_option round2 (relative_humidity_2m features_t0)),
                           (''precipitation'', map_option round2 (precipitation features_t0)),
                           (''pressure_msl'', map_option round2 (pressure_msl features_t0)),
                           (''windspeed_10m'', map_option round2 (windspeed_10m features_t0)),
                           (''winddirection_10m'',
                            map_option round2 (winddirection_10m features_t0)),
                           (''shortwave_radiation'',
                            map_option round2 (shortwave_radiation features_t0))]\<rparr>
             else None)))))))))))))))))))))"

text \<open>
  The function: the handler \<^verbatim>\<open>except Exception as e\<close> builds the error dict from the
  district and from \<^verbatim>\<open>type(e).__name__\<close> and \<^verbatim>\<open>str(e)\<close>. An exception raised by the
  handler itself leaves the function.
\<close>

definition predict_pm25_for_district ::
  "(datetime \<Rightarrow> timedelta) \<Rightarrow> (int \<Rightarrow> string \<Rightarrow> real \<Rightarrow> real \<Rightarrow> exn + air) \<Rightarrow>
   (aware \<Rightarrow> real \<Rightarrow> real \<Rightarrow> exn + weather) \<Rightarrow> (string list \<Rightarrow> string) \<Rightarrow>
   (frame \<Rightarrow> exn + 'x) \<Rightarrow> ('x \<Rightarrow> exn + real) \<Rightarrow> (real \<Rightarrow> real) \<Rightarrow> (aware \<Rightarrow> string) \<Rightarrow>
   district \<Rightarrow> int \<Rightarrow> int \<Rightarrow> int \<Rightarrow> int \<Rightarrow> int \<Rightarrow> string \<Rightarrow> string list option \<Rightarrow> bool \<Rightarrow>
   exn + prediction_result" where
  "predict_pm25_for_district utcoffset fetch_air_quality weather_at_time missing_message
     scaler_transform model_predict round2 isoformat district year month day hour minute api_key
     feature_columns include_raw_data =
     (case try_block utcoffset fetch_air_quality weather_at_time missing_message scaler_transform
             model_predict round2 isoformat district year month day hour minute api_key
             feature_columns include_raw_data of
        Inr result \<Rightarrow> Inr result
      | Inl e \<Rightarrow>
          let error_type = exn_type e; error_msg = exn_msg e in
          bind_exn (subscript ''id'' (d_id district)) (\<lambda>r_id.
          bind_exn (subscript ''name'' (d_name district)) (\<lambda>r_name.
          bind_exn (subscript ''name_en'' (d_name_en district)) (\<lambda>r_name_en.
          bind_exn (subscript ''lat'' (d_lat district)) (\<lambda>r_lat.
          bind_exn (subscript ''lon'' (d_lon district)) (\<lambda>r_lon.
          Inr (Failure r_id r_name r_name_en r_lat r_lon error_msg error_type)))))))"


section \<open>api/routes.py: predict\_all\_districts\<close>

text \<open>
  The part of the route after the validation and the miss in the result cache, from the
  dispatch of the predictions to \<^verbatim>\<open>response_data\<close>. Of the response it keeps the keys
  \<^verbatim>\<open>districts\<close>, \<^verbatim>\<open>statistics\<close>, \<^verbatim>\<open>errors\<close> and \<^verbatim>\<open>warning\<close>; the last two are present only
  when a prediction failed.
\<close>

datatype statistics =
    Statistics (city_average: real) (city_max: real) (city_min: real) (city_median: real)
      (city_std: real) (total_districts_successful: nat) (total_districts_expected: nat)
      (total_districts_failed: nat) (success_rate_percent: real) (who_standard_15_above: nat)
      (who_standard_15_below: nat) (unhealthy_threshold_55: nat)
  | No_successful_predictions (total_districts_expected: nat) (total_districts_failed: nat)

record response_data =
  resp_districts :: "prediction_result list"
  resp_statistics :: statistics
  resp_errors :: "prediction_result list option"
  resp_warning :: "string option"

text \<open>
  The functions of numpy are parameters, \<open>np_round2\<close> being \<^verbatim>\<open>round(x, 2)\<close> on a numpy
  float. The literal \<^verbatim>\<open>55.4\<close> is the binary float nearest to it.
\<close>

record numpy =
  np_mean :: "real list \<Rightarrow> real"
  np_max :: "real list \<Rightarrow> real"
  np_min :: "real list \<Rightarrow> real"
  np_median :: "real list \<Rightarrow> real"
  np_std :: "real list \<Rightarrow> real"
  np_round2 :: "real \<Rightarrow> real"

definition float_55_4 :: real where
  "float_55_4 = 7796856854885171 / 140737488355328"

text \<open>
  The loop over \<^verbatim>\<open>as_completed(futures)\<close>: \<^verbatim>\<open>future.result()\<close> returns the dict of a
  prediction or raises what the prediction raised.
\<close>

fun collect ::
  "(exn + prediction_result) list \<Rightarrow> prediction_result list \<Rightarrow> prediction_result list \<Rightarrow>
   exn + prediction_result list \<times> prediction_result list" where
  "collect [] results errors = Inr (results, errors)"
| "collect (Inl e # completed) results errors = Inl e"
| "collect (Inr result # completed) results errors =
     (if status result = ''success'' then collect completed (results @ [result]) errors
      else collect completed results (errors @ [result]))"

text \<open>
  The \<^verbatim>\<open>statistics\<close> dict. The parameter \<open>percent\<close> is the float
  \<^verbatim>\<open>success/expected*100\<close> for a non-zero \<^verbatim>\<open>expected\<close>, and \<open>round2\<close> is \<^verbatim>\<open>round(x, 2)\<close> on a
  float.
\<close>

definition compute_statistics ::
  "numpy \<Rightarrow> (nat \<Rightarrow> nat \<Rightarrow> real) \<Rightarrow> (real \<Rightarrow> real) \<Rightarrow> prediction_result list \<Rightarrow> nat \<Rightarrow> nat \<Rightarrow> nat \<Rightarrow>
   statistics" where
  "compute_statistics np percent round2 results success expected failed =
     (if results \<noteq> [] then
        let pm25_values = map pm25_prediction results in
        Statistics (np_round2 np (np_mean np pm25_values)) (np_round2 np (np_max np pm25_values))
          (np_round2 np (np_min np pm25_values)) (np_round2 np (np_median np pm25_values))
          (np_round2 np (np_std np pm25_values)) success expected failed
          (round2 (percent success expected))
          (length (filter (\<lambda>v. v > 15) pm25_values))
          (length (filter (\<lambda>v. v \<le> 15) pm25_values))
          (length (filter (\<lambda>v. v > float_55_4) pm25_values))
      else No_successful_predictions expected failed)"

text \<open>
  The parameter \<open>predict\<close> is \<^verbatim>\<open>predict_pm25_for_district\<close> with the arguments of the
  request, and \<open>completed\<close> lists the positions of the districts in the order in which
  their predictions complete. The summary line of the log formats
  \<^verbatim>\<open>success/expected*100\<close>, a division of two ints, before the statistics are computed.
\<close>

definition predict_all_districts ::
  "numpy \<Rightarrow> (nat \<Rightarrow> nat \<Rightarrow> real) \<Rightarrow> (real \<Rightarrow> real) \<Rightarrow> (district \<Rightarrow> exn + prediction_result) \<Rightarrow>
   district list \<Rightarrow> nat list \<Rightarrow> exn + response_data" where
  "predict_all_districts np percent round2 predict districts completed =
     bind_exn (collect (map (\<lambda>i. predict (districts ! i)) completed) [] []) (\<lambda>(results, errors).
     let results = sort_key res_id results;
         errors = sort_key res_id errors;
         expected = length districts;
         success = length results;
         failed = length errors
     in if expected = 0 then Inl (ZeroDivisionError ''division by zero'')
        else
          Inr \<lparr>resp_districts = results,
               resp_statistics = compute_statistics np percent round2 results success expected failed,
               resp_errors = (if errors \<noteq> [] then Some errors else None),
               resp_warning =
                 (if errors \<noteq> []
                  then Some (''Failed '' @ digits failed @ ''/'' @ digits expected @ '' districts'')
                  else None)\<rparr>)"

text \<open>The value under \<^verbatim>\<open>errors\<close>, empty when the response has no such key.\<close>

definition errors_of :: "response_data \<Rightarrow> prediction_result list" where
  "errors_of resp = (case resp_errors resp of None \<Rightarrow> [] | Some errors \<Rightarrow> errors)"


section \<open>Properties of the cache\<close>

subsection \<open>The least item of \<^verbatim>\<open>min\<close>\<close>

lemma min_from_mem: "min_from f b xs \<in> set (b # xs)"
  by (induction xs arbitrary: b) auto

lemma min_from_le_best: "f (min_from f b xs) \<le> f b"
proof (induction xs arbitrary: b)
  case Nil
  show ?case by simp
next
  case (Cons x xs)
  have "f (min_from f (if f x < f b then x else b) xs) \<le> f (if f x < f b then x else b)"
    by (rule Cons.IH)
  also have "\<dots> \<le> f b" by (simp add: less_imp_le)
  finally show ?case by simp
qed

lemma min_from_least: "y \<in> set xs \<Longrightarrow> f (min_from f b xs) \<le> f y"
proof (induction xs arbitrary: b)
  case Nil
  then show ?case by simp
next
  case (Cons x xs)
  let ?b = "if f x < f b then x else b"
  show ?case
  proof (cases "y \<in> set xs")
    case True
    then show ?thesis using Cons.IH [of ?b] by simp
  next
    case False
    with Cons.prems have "y = x" by simp
    moreover have "f (min_from f ?b xs) \<le> f ?b" by (rule min_from_le_best)
    moreover have "f ?b \<le> f x" by (simp add: not_less)
    ultimately show ?thesis by (metis min_from.simps(2) order_trans)
  qed
qed

lemma wf_init_cm: "wf_cm (init_cm m)"
  by (simp add: wf_cm_def init_cm_def)

lemma wf_remove_cm: "wf_cm c \<Longrightarrow> wf_cm (remove_cm k c)"
  by (simp add: wf_cm_def remove_cm_def delete_keys distinct_removeAll)

lemma wf_store_cm: "wf_cm c \<Longrightarrow> wf_cm (store_cm k v t c)"
  by (simp add: wf_cm_def store_cm_def update_keys)

lemma wf_get_cm: "wf_cm c \<Longrightarrow> wf_cm (snd (get_cm c k ttl t))"
proof -
  assume wf: "wf_cm c"
  show ?thesis
  proof (cases "map_of (cache c) k")
    case None
    then show ?thesis using wf by (simp add: get_cm_def)
  next
    case (Some v)
    then have "k \<in> set (map fst (cache c))"
      by (metis map_of_eq_None_iff option.distinct(1) set_map)
    then have "map fst (AList.update k n (access_count c)) = map fst (cache c)" for n
      using wf by (simp add: wf_cm_def update_keys)
    then show ?thesis
      using wf Some wf_remove_cm [OF wf, of k] by (simp add: get_cm_def wf_cm_def)
  qed
qed

lemma evict_lru_wf:
  assumes "wf_cm c" "cache c \<noteq> []"
  shows "\<exists>e t. (e, t) \<in> set (timestamps c) \<and> evict_lru c = Inr (remove_cm e c)
           \<and> (\<forall>x \<in> set (timestamps c). lru_rank c (e, t) \<le> lru_rank c x)"
proof -
  from assms have "timestamps c \<noteq> []" by (auto simp: wf_cm_def)
  then obtain x rest where ts: "timestamps c = x # rest" by (cases "timestamps c") auto
  let ?m = "min_from (lru_rank c) x rest"
  have mem: "?m \<in> set (timestamps c)" using min_from_mem [of "lru_rank c" x rest] ts by simp
  have least: "\<forall>y \<in> set (timestamps c). lru_rank c ?m \<le> lru_rank c y"
    using min_from_least [of _ rest "lru_rank c" x] min_from_le_best [of "lru_rank c" x rest] ts by auto
  have ev: "evict_lru c = Inr (remove_cm (fst ?m) c)"
    using assms(2) ts by (simp add: evict_lru_def py_min_def)
  show ?thesis
    using mem least ev by (metis prod.collapse)
qed


lemma length_delete_distinct:
  "distinct (map fst al) \<Longrightarrow> k \<in> fst ` set al \<Longrightarrow> Suc (length (AList.delete k al)) = length al"
proof (induction al)
  case Nil
  then show ?case by simp
next
  case (Cons p al)
  show ?case
  proof (cases "fst p = k")
    case True
    with Cons.prems have "k \<notin> fst ` set al" by auto
    then have "AList.delete k al = al"
      by (induction al) (auto simp: AList.delete_eq)
    with True show ?thesis by (cases p) (simp add: AList.delete_eq)
  next
    case False
    with Cons show ?thesis by (auto simp: AList.delete_eq)
  qed
qed

lemma keys_timestamps: "wf_cm c \<Longrightarrow> fst ` set (timestamps c) = fst ` set (cache c)"
  by (metis wf_cm_def set_map)

lemma length_remove_cm:
  "wf_cm c \<Longrightarrow> e \<in> fst ` set (cache c) \<Longrightarrow> Suc (length (cache (remove_cm e c))) = length (cache c)"
  by (simp add: remove_cm_def wf_cm_def length_delete_distinct)

lemma length_update_le: "length (AList.update k v al) \<le> Suc (length al)"
  by (induction al) auto

lemma length_store_cm: "length (cache (store_cm k v t c)) \<le> Suc (length (cache c))"
  by (simp add: store_cm_def length_update_le)

lemma max_size_simps [simp]:
  "max_size (store_cm k v t c) = max_size c"
  "max_size (remove_cm e c) = max_size c"
  "max_size (snd (get_cm c k ttl now)) = max_size c"
  "max_size (snd (snd (clear_cm c))) = max_size c"
  "max_size (init_cm m) = m"
  by (auto simp: store_cm_def remove_cm_def get_cm_def clear_cm_def init_cm_def split: option.splits)

lemma set_cm_wf:
  assumes "wf_cm c"
  shows "\<exists>c0. set_cm c k v t = Inr (store_cm k v t c0) \<and> wf_cm c0 \<and> max_size c0 = max_size c
           \<and> (int (length (cache c)) \<ge> max_size c \<and> cache c \<noteq> [] \<longrightarrow>
                (\<exists>e. e \<in> fst ` set (cache c) \<and> c0 = remove_cm e c))
           \<and> (\<not> (int (length (cache c)) \<ge> max_size c \<and> cache c \<noteq> []) \<longrightarrow> c0 = c)"
proof (cases "int (length (cache c)) \<ge> max_size c \<and> cache c \<noteq> []")
  case True
  then obtain e t' where e: "(e, t') \<in> set (timestamps c)" "evict_lru c = Inr (remove_cm e c)"
    using evict_lru_wf [OF assms] by blast
  have "e \<in> fst ` set (cache c)"
    using e(1) keys_timestamps [OF assms] by force
  then show ?thesis
    using True e(2) wf_remove_cm [OF assms, of e] by (auto simp: set_cm_def)
next
  case False
  then show ?thesis using assms by (auto simp: set_cm_def evict_lru_def)
qed

lemma inv_set_cm:
  assumes "inv_cm m c" "1 \<le> m"
  shows "\<exists>c'. set_cm c k v t = Inr c' \<and> inv_cm m c'"
proof -
  from assms have wf: "wf_cm c" and ms: "max_size c = m" and le: "int (length (cache c)) \<le> m"
    by (auto simp: inv_cm_def)
  obtain c0 where c0: "set_cm c k v t = Inr (store_cm k v t c0)" "wf_cm c0" "max_size c0 = max_size c"
    "(int (length (cache c)) \<ge> max_size c \<and> cache c \<noteq> [] \<longrightarrow>
                (\<exists>e. e \<in> fst ` set (cache c) \<and> c0 = remove_cm e c))"
    "(\<not> (int (length (cache c)) \<ge> max_size c \<and> cache c \<noteq> []) \<longrightarrow> c0 = c)"
    using set_cm_wf [OF wf, of k v t] by blast
  have "int (length (cache c0)) < m"
  proof (cases "int (length (cache c)) \<ge> max_size c \<and> cache c \<noteq> []")
    case True
    with c0(4) obtain e where "e \<in> fst ` set (cache c)" "c0 = remove_cm e c" by blast
    then have "Suc (length (cache c0)) = length (cache c)"
      using length_remove_cm [OF wf] by simp
    with le show ?thesis by linarith
  next
    case False
    with c0(5) have eq: "c0 = c" by simp
    from False ms assms(2) have "int (length (cache c)) < m" by (cases "cache c") auto
    with eq show ?thesis by simp
  qed
  moreover have "length (cache (store_cm k v t c0)) \<le> Suc (length (cache c0))"
    by (rule length_store_cm)
  ultimately have "int (length (cache (store_cm k v t c0))) \<le> m" by linarith
  then show ?thesis
    using c0(1,2,3) ms wf_store_cm [OF c0(2), of k v t] by (simp add: inv_cm_def)
qed

lemma length_get_cm: "length (cache (snd (get_cm c k ttl now))) \<le> length (cache c)"
  by (auto simp: get_cm_def remove_cm_def length_delete_le split: option.splits)

lemma inv_step_cm:
  assumes "inv_cm m c" "1 \<le> m"
  shows "\<exists>c'. step_cm x c = Inr c' \<and> inv_cm m c'"
proof (cases x)
  case (Get k ttl now)
  have "int (length (cache (snd (get_cm c k ttl now)))) \<le> m"
    using length_get_cm [of c k ttl now] assms(1) by (simp add: inv_cm_def)
  then show ?thesis
    using Get assms(1) wf_get_cm [of c k ttl now] by (simp add: inv_cm_def)
next
  case (Set k v t)
  then show ?thesis using inv_set_cm [OF assms] by simp
next
  case Clear
  then show ?thesis using assms by (simp add: inv_cm_def clear_cm_def wf_cm_def)
qed

lemma inv_run_cm:
  "inv_cm m c \<Longrightarrow> 1 \<le> m \<Longrightarrow> \<exists>c'. run_cm ops c = Inr c' \<and> inv_cm m c'"
proof (induction ops arbitrary: c)
  case Nil
  then show ?case by simp
next
  case (Cons x ops)
  obtain c1 where c1: "step_cm x c = Inr c1" "inv_cm m c1"
    using inv_step_cm [OF Cons.prems] by blast
  then show ?case using Cons.IH [OF c1(2) Cons.prems(2)] by simp
qed


text \<open>
  Claim C9. Starting from an empty \<^verbatim>\<open>CacheManager\<close> with \<^verbatim>\<open>max_size >= 1\<close>, every
  sequence of \<^verbatim>\<open>get\<close>, \<^verbatim>\<open>set\<close> and \<^verbatim>\<open>clear\<close> calls runs without an exception and
  ends in a state with \<^verbatim>\<open>len(cache) <= max_size\<close>.
\<close>

theorem cache_never_exceeds_capacity:
  assumes "1 \<le> m"
  shows "\<exists>c. run_cm ops (init_cm m :: ('k, 'v) cache_manager) = Inr c \<and>
             max_size c = m \<and> int (length (cache c)) \<le> max_size c"
proof -
  have "inv_cm m (init_cm m :: ('k, 'v) cache_manager)"
    using assms by (simp add: inv_cm_def wf_init_cm) (simp add: init_cm_def)
  then show ?thesis
    using inv_run_cm [OF _ assms, of "init_cm m" ops] by (auto simp: inv_cm_def)
qed

theorem cache_never_exceeds_capacity_witness:
  "(1::int) \<le> 2 \<and>
   (\<exists>c. run_cm [Set ''a'' (1::nat) 0, Set ''b'' 2 1, Get ''a'' 60 2, Set ''c'' 3 3]
           (init_cm 2) = Inr c \<and> max_size c = 2 \<and> int (length (cache c)) \<le> max_size c)"
  using cache_never_exceeds_capacity
    [of 2 "[Set ''a'' (1::nat) 0, Set ''b'' 2 1, Get ''a'' 60 2, Set ''c'' 3 3]"]
  by simp


subsection \<open>Expiry\<close>

lemma map_of_store_cm:
  "map_of (cache (store_cm k v t c)) k = Some v"
  "map_of (timestamps (store_cm k v t c)) k = Some t"
  "map_of (access_count (store_cm k v t c)) k = Some 0"
  by (simp_all add: store_cm_def update_conv')

lemma keys_remove_cm:
  "k \<notin> fst ` set (cache (remove_cm k c))"
  "k \<notin> fst ` set (timestamps (remove_cm k c))"
  "k \<notin> fst ` set (access_count (remove_cm k c))"
  by (simp_all add: remove_cm_def delete_notin_dom)

lemma get_cm_after_store:
  "get_cm (store_cm k v t c) k ttl now =
     (if now - t < real_of_int ttl
      then (Some v, (store_cm k v t c)\<lparr>access_count := AList.update k 1 (access_count (store_cm k v t c))\<rparr>)
      else (None, remove_cm k (store_cm k v t c)))"
  by (simp add: get_cm_def map_of_store_cm dict_get_def)

text \<open>
  Claim C3. After \<^verbatim>\<open>set(key, value)\<close> at time \<open>T\<close>, a \<^verbatim>\<open>get(key, ttl)\<close> at time \<open>now\<close>
  returns the stored value when \<open>now - T < ttl\<close>; when \<open>now - T \<ge> ttl\<close> it returns
  \<^verbatim>\<open>None\<close> and leaves the key in none of the three dicts.
\<close>

theorem cache_ttl:
  assumes "wf_cm c"
  shows "\<exists>c'. set_cm c key v T = Inr c' \<and>
           (now - T < real_of_int ttl \<longrightarrow> fst (get_cm c' key ttl now) = Some v) \<and>
           (now - T \<ge> real_of_int ttl \<longrightarrow>
              fst (get_cm c' key ttl now) = None \<and>
              key \<notin> fst ` set (cache (snd (get_cm c' key ttl now))) \<and>
              key \<notin> fst ` set (timestamps (snd (get_cm c' key ttl now))) \<and>
              key \<notin> fst ` set (access_count (snd (get_cm c' key ttl now))))"
proof -
  obtain c0 where c0: "set_cm c key v T = Inr (store_cm key v T c0)"
    using set_cm_wf [OF assms, of key v T] by blast
  show ?thesis
    unfolding c0 by (simp add: get_cm_after_store keys_remove_cm)
qed

theorem cache_ttl_witness:
  "wf_cm (init_cm 2 :: (string, nat) cache_manager) \<and>
   (\<exists>c'. set_cm (init_cm 2) ''k'' (7::nat) 100 = Inr c' \<and>
      fst (get_cm c' ''k'' 1800 1899) = Some 7) \<and>
   (\<exists>c'. set_cm (init_cm 2) ''k'' (7::nat) 100 = Inr c' \<and>
      fst (get_cm c' ''k'' 1800 1900) = None \<and>
      ''k'' \<notin> fst ` set (cache (snd (get_cm c' ''k'' 1800 1900))) \<and>
      ''k'' \<notin> fst ` set (timestamps (snd (get_cm c' ''k'' 1800 1900))) \<and>
      ''k'' \<notin> fst ` set (access_count (snd (get_cm c' ''k'' 1800 1900))))"
  using cache_ttl [OF wf_init_cm, of 2 "''k''" "7::nat" 100 1899 1800]
    cache_ttl [OF wf_init_cm, of 2 "''k''" "7::nat" 100 1900 1800]
  by (simp add: wf_init_cm)


subsection \<open>Clearing\<close>

text \<open>
  Claim C8, as stated: \<^verbatim>\<open>clear()\<close> returns the count of entries removed. On a cache
  that holds one entry the call returns \<^verbatim>\<open>None\<close>, not 1.
\<close>

theorem clear_returns_none_counterexample:
  "length (cache (store_cm ''a'' (1::nat) 0 (init_cm 2))) = 1 \<and>
   fst (clear_cm (store_cm ''a'' (1::nat) 0 (init_cm 2))) \<noteq> Some 1"
  by (simp add: clear_cm_def store_cm_def init_cm_def)


text \<open>
  Claim C8, amended: \<^verbatim>\<open>clear()\<close> empties the value map, the timestamp map and the
  access counters, keeps the capacity, returns \<^verbatim>\<open>None\<close>, and writes the number of
  entries removed to the log; every later \<^verbatim>\<open>get\<close> is a miss.
\<close>

theorem clear_empties_and_logs:
  "\<exists>c'. clear_cm c = (None, length (cache c), c') \<and>
     cache c' = [] \<and> timestamps c' = [] \<and> access_count c' = [] \<and> max_size c' = max_size c \<and>
     stats_size c' = 0 \<and> fst (get_cm c' key ttl now) = None"
  by (simp add: clear_cm_def stats_size_def get_cm_def)


subsection \<open>Eviction\<close>

lemma keys_delete: "fst ` set (AList.delete k al) = fst ` set al - {k}"
  by (induction al) (auto simp: AList.delete_eq)

lemma update_fresh: "k \<notin> fst ` set al \<Longrightarrow> AList.update k v al = al @ [(k, v)]"
  by (induction al) auto

lemma run_cm_append:
  "run_cm (xs @ ys) c = (case run_cm xs c of Inl e \<Rightarrow> Inl e | Inr c' \<Rightarrow> run_cm ys c')"
  by (induction xs arbitrary: c) (auto split: sum.splits)

lemma set_evicts_least:
  assumes wf: "wf_cm c" and ne: "cache c \<noteq> []" and full: "max_size c \<le> int (length (cache c))"
  shows "\<exists>e t. (e, t) \<in> set (timestamps c) \<and> e \<in> fst ` set (cache c) \<and>
           (\<forall>x \<in> set (timestamps c). lru_rank c (e, t) \<le> lru_rank c x) \<and>
           set_cm c key v now = Inr (store_cm key v now (remove_cm e c)) \<and>
           Suc (length (cache (remove_cm e c))) = length (cache c) \<and>
           fst ` set (cache (store_cm key v now (remove_cm e c)))
             = insert key (fst ` set (cache c) - {e}) \<and>
           map_of (cache (store_cm key v now (remove_cm e c))) key = Some v \<and>
           map_of (timestamps (store_cm key v now (remove_cm e c))) key = Some now \<and>
           map_of (access_count (store_cm key v now (remove_cm e c))) key = Some 0 \<and>
           (\<forall>k. k \<noteq> key \<and> k \<noteq> e \<longrightarrow>
              map_of (cache (store_cm key v now (remove_cm e c))) k = map_of (cache c) k)"
proof -
  obtain e t where e: "(e, t) \<in> set (timestamps c)" "evict_lru c = Inr (remove_cm e c)"
    "\<forall>x \<in> set (timestamps c). lru_rank c (e, t) \<le> lru_rank c x"
    using evict_lru_wf [OF wf ne] by blast
  have mem: "e \<in> fst ` set (cache c)"
    using e(1) keys_timestamps [OF wf] by force
  have s: "set_cm c key v now = Inr (store_cm key v now (remove_cm e c))"
    using full e(2) by (simp add: set_cm_def)
  have len: "Suc (length (cache (remove_cm e c))) = length (cache c)"
    by (rule length_remove_cm [OF wf mem])
  have keys: "fst ` set (cache (store_cm key v now (remove_cm e c)))
             = insert key (fst ` set (cache c) - {e})"
    by (simp add: store_cm_def remove_cm_def dom_update keys_delete)
  have others: "\<forall>k. k \<noteq> key \<and> k \<noteq> e \<longrightarrow>
              map_of (cache (store_cm key v now (remove_cm e c))) k = map_of (cache c) k"
    by (simp add: store_cm_def remove_cm_def update_conv' delete_conv')
  show ?thesis
    using e(1,3) mem s len keys others map_of_store_cm [of key v now "remove_cm e c"] by blast
qed

lemma wf_filled: "distinct (map fst ins) \<Longrightarrow> wf_cm (filled m ins)"
  by (simp add: wf_cm_def filled_def comp_def)

lemma set_cm_filled:
  assumes "k \<notin> fst ` set ins" "int (length ins) < m"
  shows "set_cm (filled m ins) k v t = Inr (filled m (ins @ [(k, v, t)]))"
proof -
  have "store_cm k v t (filled m ins) = filled m (ins @ [(k, v, t)])"
    using assms(1) by (simp add: store_cm_def filled_def update_fresh image_image)
  then show ?thesis using assms(2) by (simp add: set_cm_def) (simp add: filled_def)
qed

lemma run_fill:
  "distinct (map fst ins) \<Longrightarrow> int (length ins) \<le> m \<Longrightarrow>
     run_cm (set_ops ins) (filled m []) = Inr (filled m ins)"
proof (induction ins rule: rev_induct)
  case Nil
  then show ?case by (simp add: set_ops_def)
next
  case (snoc x ins)
  obtain k v t where x: "x = (k, v, t)" by (cases x) auto
  from snoc.prems have d: "distinct (map fst ins)" and k: "k \<notin> fst ` set ins"
    and l: "int (length ins) < m" by (auto simp: x)
  have "run_cm (set_ops ins) (filled m []) = Inr (filled m ins)"
    using snoc.IH d l by simp
  then show ?case
    using set_cm_filled [OF k l, of v t] by (simp add: set_ops_def run_cm_append x)
qed

lemma init_cm_filled: "init_cm m = filled m []"
  by (simp add: init_cm_def filled_def)

lemma map_of_filled:
  "distinct (map fst ins) \<Longrightarrow> (k, v, t) \<in> set ins \<Longrightarrow> map_of (cache (filled m ins)) k = Some v"
  by (induction ins) (auto simp: filled_def rev_image_eqI)

lemma lru_rank_filled:
  "(k, t) \<in> set (timestamps (filled m ins)) \<Longrightarrow> lru_rank (filled m ins) (k, t) = (0, t)"
proof -
  assume "(k, t) \<in> set (timestamps (filled m ins))"
  then have "k \<in> fst ` set ins" by (auto simp: filled_def)
  then have "map_of (access_count (filled m ins)) k = Some 0"
    by (induction ins) (auto simp: filled_def)
  then show ?thesis by (simp add: lru_rank_def dict_get_def)
qed

lemma get_cm_fst:
  "fst (get_cm c k ttl t) =
     (case map_of (cache c) k of
        None \<Rightarrow> None
      | Some v \<Rightarrow> if t - dict_get (timestamps c) k 0 < real_of_int ttl then Some v else None)"
  by (simp add: get_cm_def split: option.splits)

lemma get_cm_entry:
  "entry_of c' k = entry_of c k \<Longrightarrow> fst (get_cm c' k ttl t) = fst (get_cm c k ttl t)"
  by (auto simp: get_cm_fst entry_of_def dict_get_def split: option.splits)

lemma get_cm_entry_hit:
  "entry_of c k = (Some v, Some T, n) \<Longrightarrow> t - T < real_of_int ttl \<Longrightarrow> fst (get_cm c k ttl t) = Some v"
  by (simp add: get_cm_fst entry_of_def dict_get_def)

lemma get_cm_entry_none:
  "entry_of c k = (None, x, n) \<Longrightarrow> fst (get_cm c k ttl t) = None"
  by (simp add: get_cm_fst entry_of_def)

lemma entry_store_same: "entry_of (store_cm k v t c) k = (Some v, Some t, Some 0)"
  by (simp add: entry_of_def store_cm_def update_conv')

lemma entry_store_other: "k' \<noteq> k \<Longrightarrow> entry_of (store_cm k v t c) k' = entry_of c k'"
  by (simp add: entry_of_def store_cm_def update_conv')

lemma entry_remove_same: "entry_of (remove_cm e c) e = (None, None, None)"
  by (simp add: entry_of_def remove_cm_def delete_conv')

lemma entry_remove_other: "k \<noteq> e \<Longrightarrow> entry_of (remove_cm e c) k = entry_of c k"
  by (simp add: entry_of_def remove_cm_def delete_conv')

lemma entry_filled:
  "distinct (map fst ins) \<Longrightarrow> (k, v, t) \<in> set ins \<Longrightarrow>
     entry_of (filled m ins) k = (Some v, Some t, Some 0)"
  by (induction ins) (auto simp: filled_def entry_of_def rev_image_eqI)

lemma set_evicts_least_entries:
  assumes wf: "wf_cm c" and ne: "cache c \<noteq> []" and full: "max_size c \<le> int (length (cache c))"
  shows "\<exists>e t. (e, t) \<in> set (timestamps c) \<and> e \<in> fst ` set (cache c) \<and>
           (\<forall>x \<in> set (timestamps c). lru_rank c (e, t) \<le> lru_rank c x) \<and>
           set_cm c key v now = Inr (store_cm key v now (remove_cm e c)) \<and>
           Suc (length (cache (remove_cm e c))) = length (cache c) \<and>
           fst ` set (cache (store_cm key v now (remove_cm e c)))
             = insert key (fst ` set (cache c) - {e}) \<and>
           entry_of (store_cm key v now (remove_cm e c)) key = (Some v, Some now, Some 0) \<and>
           (e \<noteq> key \<longrightarrow>
              entry_of (store_cm key v now (remove_cm e c)) e = (None, None, None) \<and>
              (\<forall>ttl t'. fst (get_cm (store_cm key v now (remove_cm e c)) e ttl t') = None)) \<and>
           (\<forall>k. k \<noteq> key \<and> k \<noteq> e \<longrightarrow>
              entry_of (store_cm key v now (remove_cm e c)) k = entry_of c k \<and>
              (\<forall>ttl t'. fst (get_cm (store_cm key v now (remove_cm e c)) k ttl t')
                          = fst (get_cm c k ttl t')))"
proof -
  obtain e t where e: "(e, t) \<in> set (timestamps c)" "e \<in> fst ` set (cache c)"
    "\<forall>x \<in> set (timestamps c). lru_rank c (e, t) \<le> lru_rank c x"
    "set_cm c key v now = Inr (store_cm key v now (remove_cm e c))"
    "Suc (length (cache (remove_cm e c))) = length (cache c)"
    "fst ` set (cache (store_cm key v now (remove_cm e c))) = insert key (fst ` set (cache c) - {e})"
    using set_evicts_least [OF wf ne full, of key v now]
    by (elim exE conjE) (rule that, assumption+)
  let ?c' = "store_cm key v now (remove_cm e c)"
  have new: "entry_of ?c' key = (Some v, Some now, Some 0)" by (rule entry_store_same)
  have gone: "e \<noteq> key \<longrightarrow> entry_of ?c' e = (None, None, None) \<and>
                (\<forall>ttl t'. fst (get_cm ?c' e ttl t') = None)"
  proof
    assume ek: "e \<noteq> key"
    have en: "entry_of ?c' e = (None, None, None)"
      using ek by (simp add: entry_store_other entry_remove_same)
    then show "entry_of ?c' e = (None, None, None) \<and> (\<forall>ttl t'. fst (get_cm ?c' e ttl t') = None)"
      using get_cm_entry_none [of ?c' e None None] by simp
  qed
  have others: "\<forall>k. k \<noteq> key \<and> k \<noteq> e \<longrightarrow> entry_of ?c' k = entry_of c k \<and>
                  (\<forall>ttl t'. fst (get_cm ?c' k ttl t') = fst (get_cm c k ttl t'))"
  proof (intro allI impI)
    fix k assume k: "k \<noteq> key \<and> k \<noteq> e"
    then have en: "entry_of ?c' k = entry_of c k"
      by (simp add: entry_store_other entry_remove_other)
    then show "entry_of ?c' k = entry_of c k \<and>
                 (\<forall>ttl t'. fst (get_cm ?c' k ttl t') = fst (get_cm c k ttl t'))"
      using get_cm_entry [of ?c' k c] by simp
  qed
  show ?thesis
    by (intro exI [of _ e] exI [of _ t] conjI) (rule e new gone others)+
qed


lemma overfill_evicts_one_entries:
  assumes cap: "1 \<le> m" and d: "distinct (map fst ins)" and len: "int (length ins) = m + 1"
  shows "\<exists>c e ve te. run_cm (set_ops ins) (init_cm m) = Inr c \<and>
           (e, ve, te) \<in> set (butlast ins) \<and>
           (\<forall>x \<in> set (butlast ins). te \<le> snd (snd x)) \<and>
           fst ` set (cache c) = fst ` set ins - {e} \<and>
           int (length (cache c)) = m \<and>
           entry_of c e = (None, None, None) \<and>
           (\<forall>ttl now. fst (get_cm c e ttl now) = None) \<and>
           (\<forall>x \<in> set ins. fst x \<noteq> e \<longrightarrow>
              entry_of c (fst x) = (Some (fst (snd x)), Some (snd (snd x)), Some 0) \<and>
              (\<forall>ttl now. now - snd (snd x) < real_of_int ttl \<longrightarrow>
                 fst (get_cm c (fst x) ttl now) = Some (fst (snd x))))"
proof -
  from len cap have ne: "ins \<noteq> []" by auto
  define pre where "pre = butlast ins"
  obtain k v t where lst: "last ins = (k, v, t)" by (cases "last ins") auto
  have ins: "ins = pre @ [(k, v, t)]"
    using ne lst pre_def by (metis append_butlast_last_id)
  have dpre: "distinct (map fst pre)" and kpre: "k \<notin> fst ` set pre"
    using d ins by auto
  have lpre: "int (length pre) = m" using len ins by simp
  let ?c = "filled m pre"
  have wf: "wf_cm ?c" by (rule wf_filled [OF dpre])
  have run1: "run_cm (set_ops pre) (init_cm m) = Inr ?c"
    using run_fill [OF dpre, of m] lpre by (simp add: init_cm_filled)
  have cne: "cache ?c \<noteq> []" using lpre cap by (auto simp: filled_def)
  have full: "max_size ?c \<le> int (length (cache ?c))" using lpre by (simp add: filled_def)
  obtain e te where e: "(e, te) \<in> set (timestamps ?c)" "e \<in> fst ` set (cache ?c)"
      "\<forall>x \<in> set (timestamps ?c). lru_rank ?c (e, te) \<le> lru_rank ?c x"
      "set_cm ?c k v t = Inr (store_cm k v t (remove_cm e ?c))"
      "Suc (length (cache (remove_cm e ?c))) = length (cache ?c)"
      "fst ` set (cache (store_cm k v t (remove_cm e ?c))) = insert k (fst ` set (cache ?c) - {e})"
      "entry_of (store_cm k v t (remove_cm e ?c)) k = (Some v, Some t, Some 0)"
      "e \<noteq> k \<longrightarrow> entry_of (store_cm k v t (remove_cm e ?c)) e = (None, None, None) \<and>
         (\<forall>ttl t'. fst (get_cm (store_cm k v t (remove_cm e ?c)) e ttl t') = None)"
      "\<forall>k'. k' \<noteq> k \<and> k' \<noteq> e \<longrightarrow>
          entry_of (store_cm k v t (remove_cm e ?c)) k' = entry_of ?c k' \<and>
          (\<forall>ttl t'. fst (get_cm (store_cm k v t (remove_cm e ?c)) k' ttl t')
                      = fst (get_cm ?c k' ttl t'))"
    using set_evicts_least_entries [OF wf cne full, of k v t]
    by (elim exE conjE) (rule that, assumption+)
  let ?c' = "store_cm k v t (remove_cm e ?c)"
  have run: "run_cm (set_ops ins) (init_cm m) = Inr ?c'"
    using run1 e(4) by (simp add: ins set_ops_def run_cm_append)
  obtain ve where ve: "(e, ve, te) \<in> set pre"
    using e(1) by (auto simp: filled_def)
  have least: "\<forall>x \<in> set pre. te \<le> snd (snd x)"
  proof
    fix x assume x: "x \<in> set pre"
    then have m: "(fst x, snd (snd x)) \<in> set (timestamps ?c)" by (auto simp: filled_def)
    then have "lru_rank ?c (e, te) \<le> lru_rank ?c (fst x, snd (snd x))" using e(3) by blast
    then show "te \<le> snd (snd x)"
      using lru_rank_filled [OF e(1)] lru_rank_filled [OF m] by simp
  qed
  have keysc: "fst ` set (cache ?c) = fst ` set pre" by (auto simp: filled_def image_image)
  have ek: "e \<noteq> k" using ve kpre by force
  have keys: "fst ` set (cache ?c') = fst ` set ins - {e}"
    using e(6) keysc ek by (auto simp: ins)
  have lenc: "int (length (cache ?c')) = m"
  proof -
    have "k \<notin> fst ` set (cache (remove_cm e ?c))"
      using kpre keysc by (simp add: remove_cm_def keys_delete)
    then have "length (cache ?c') = Suc (length (cache (remove_cm e ?c)))"
      by (simp add: store_cm_def update_fresh)
    then show ?thesis using e(5) lpre by (simp add: filled_def)
  qed
  have gone: "entry_of ?c' e = (None, None, None)" "\<forall>ttl now. fst (get_cm ?c' e ttl now) = None"
    using e(8) ek by simp_all
  have vals: "\<forall>x \<in> set ins. fst x \<noteq> e \<longrightarrow>
              entry_of ?c' (fst x) = (Some (fst (snd x)), Some (snd (snd x)), Some 0) \<and>
              (\<forall>ttl now. now - snd (snd x) < real_of_int ttl \<longrightarrow>
                 fst (get_cm ?c' (fst x) ttl now) = Some (fst (snd x)))"
  proof (intro ballI impI)
    fix x assume x: "x \<in> set ins" and xe: "fst x \<noteq> e"
    have en: "entry_of ?c' (fst x) = (Some (fst (snd x)), Some (snd (snd x)), Some 0)"
    proof (cases "x \<in> set pre")
      case True
      then have "fst x \<noteq> k" using kpre by auto
      then have "entry_of ?c' (fst x) = entry_of ?c (fst x)" using e(9) xe by simp
      also have "\<dots> = (Some (fst (snd x)), Some (snd (snd x)), Some 0)"
        using entry_filled [OF dpre, of "fst x" "fst (snd x)" "snd (snd x)" m] True by simp
      finally show ?thesis .
    next
      case False
      with x have "x = (k, v, t)" by (simp add: ins)
      then show ?thesis using e(7) by simp
    qed
    then show "entry_of ?c' (fst x) = (Some (fst (snd x)), Some (snd (snd x)), Some 0) \<and>
              (\<forall>ttl now. now - snd (snd x) < real_of_int ttl \<longrightarrow>
                 fst (get_cm ?c' (fst x) ttl now) = Some (fst (snd x)))"
      using get_cm_entry_hit [of ?c' "fst x" "fst (snd x)" "snd (snd x)" "Some 0"] by simp
  qed
  show ?thesis
    unfolding pre_def [symmetric]
    by (intro exI [of _ ?c'] exI [of _ e] exI [of _ ve] exI [of _ te] conjI)
       (rule run ve least keys lenc gone vals)+
qed

text \<open>
  Claim C4, as stated: in every state with \<^verbatim>\<open>len(cache) >= max_size\<close>, \<^verbatim>\<open>set\<close> first
  evicts exactly one entry, and inserting capacity + 1 distinct keys into an empty cache
  evicts exactly one. With capacity 0 the empty cache is such a state: \<^verbatim>\<open>_evict_lru\<close>
  returns at its guard \<^verbatim>\<open>if not self.cache\<close>, nothing is evicted, and the one key
  inserted stays.
\<close>

theorem set_on_empty_cache_at_capacity_counterexample:
  "max_size (init_cm 0 :: (string, nat) cache_manager)
     \<le> int (length (cache (init_cm 0 :: (string, nat) cache_manager))) \<and>
   evict_lru (init_cm 0 :: (string, nat) cache_manager) = Inr (init_cm 0) \<and>
   set_cm (init_cm 0) ''a'' (1::nat) 5 =
     Inr \<lparr>cache = [(''a'', 1)], timestamps = [(''a'', 5)], access_count = [(''a'', 0)],
          max_size = 0\<rparr>"
  by (simp add: init_cm_def evict_lru_def set_cm_def store_cm_def)


text \<open>
  Claim C4, amended. In every state with a non-empty cache and \<^verbatim>\<open>len(cache) >= max_size\<close>,
  \<^verbatim>\<open>set(key, value)\<close> first evicts exactly one entry, one whose pair (access count,
  timestamp) is least among the entries, then stores the key with the value, a fresh
  timestamp and access count 0. The evicted key, when it is not the key stored, is left in
  none of the three dicts and every \<^verbatim>\<open>get\<close> of it misses; every other entry keeps its
  value, its timestamp and its access counter, so every \<^verbatim>\<open>get\<close> of it returns what it
  returned before. Consequently, for a capacity of at least 1, inserting capacity + 1
  distinct keys into an empty cache evicts exactly one of the first capacity keys, one with
  the least timestamp; every \<^verbatim>\<open>get\<close> of that key misses, and every other key is
  retrievable: it holds its value, the timestamp of its insertion and access count 0, and
  a \<^verbatim>\<open>get\<close> within its time to live returns its value.
\<close>

theorem set_evicts_least_then_inserts:
  "(wf_cm c \<and> cache c \<noteq> [] \<and> max_size c \<le> int (length (cache c)) \<longrightarrow>
      (\<exists>e t. (e, t) \<in> set (timestamps c) \<and> e \<in> fst ` set (cache c) \<and>
           (\<forall>x \<in> set (timestamps c). lru_rank c (e, t) \<le> lru_rank c x) \<and>
           set_cm c key v now = Inr (store_cm key v now (remove_cm e c)) \<and>
           Suc (length (cache (remove_cm e c))) = length (cache c) \<and>
           fst ` set (cache (store_cm key v now (remove_cm e c)))
             = insert key (fst ` set (cache c) - {e}) \<and>
           entry_of (store_cm key v now (remove_cm e c)) key = (Some v, Some now, Some 0) \<and>
           (e \<noteq> key \<longrightarrow>
              entry_of (store_cm key v now (remove_cm e c)) e = (None, None, None) \<and>
              (\<forall>ttl t'. fst (get_cm (store_cm key v now (remove_cm e c)) e ttl t') = None)) \<and>
           (\<forall>k. k \<noteq> key \<and> k \<noteq> e \<longrightarrow>
              entry_of (store_cm key v now (remove_cm e c)) k = entry_of c k \<and>
              (\<forall>ttl t'. fst (get_cm (store_cm key v now (remove_cm e c)) k ttl t')
                          = fst (get_cm c k ttl t')))))
   \<and>
   (1 \<le> m \<and> distinct (map fst ins) \<and> int (length ins) = m + 1 \<longrightarrow>
      (\<exists>c' e ve te. run_cm (set_ops ins) (init_cm m) = Inr c' \<and>
           (e, ve, te) \<in> set (butlast ins) \<and>
           (\<forall>x \<in> set (butlast ins). te \<le> snd (snd x)) \<and>
           fst ` set (cache c') = fst ` set ins - {e} \<and>
           int (length (cache c')) = m \<and>
           entry_of c' e = (None, None, None) \<and>
           (\<forall>ttl now. fst (get_cm c' e ttl now) = None) \<and>
           (\<forall>x \<in> set ins. fst x \<noteq> e \<longrightarrow>
              entry_of c' (fst x) = (Some (fst (snd x)), Some (snd (snd x)), Some 0) \<and>
              (\<forall>ttl now. now - snd (snd x) < real_of_int ttl \<longrightarrow>
                 fst (get_cm c' (fst x) ttl now) = Some (fst (snd x))))))"
proof (intro conjI impI)
  assume "wf_cm c \<and> cache c \<noteq> [] \<and> max_size c \<le> int (length (cache c))"
  then show "\<exists>e t. (e, t) \<in> set (timestamps c) \<and> e \<in> fst ` set (cache c) \<and>
           (\<forall>x \<in> set (timestamps c). lru_rank c (e, t) \<le> lru_rank c x) \<and>
           set_cm c key v now = Inr (store_cm key v now (remove_cm e c)) \<and>
           Suc (length (cache (remove_cm e c))) = length (cache c) \<and>
           fst ` set (cache (store_cm key v now (remove_cm e c)))
             = insert key (fst ` set (cache c) - {e}) \<and>
           entry_of (store_cm key v now (remove_cm e c)) key = (Some v, Some now, Some 0) \<and>
           (e \<noteq> key \<longrightarrow>
              entry_of (store_cm key v now (remove_cm e c)) e = (None, None, None) \<and>
              (\<forall>ttl t'. fst (get_cm (store_cm key v now (remove_cm e c)) e ttl t') = None)) \<and>
           (\<forall>k. k \<noteq> key \<and> k \<noteq> e \<longrightarrow>
              entry_of (store_cm key v now (remove_cm e c)) k = entry_of c k \<and>
              (\<forall>ttl t'. fst (get_cm (store_cm key v now (remove_cm e c)) k ttl t')
                          = fst (get_cm c k ttl t')))"
    by (intro set_evicts_least_entries) simp_all
next
  assume "1 \<le> m \<and> distinct (map fst ins) \<and> int (length ins) = m + 1"
  then show "\<exists>c' e ve te. run_cm (set_ops ins) (init_cm m) = Inr c' \<and>
           (e, ve, te) \<in> set (butlast ins) \<and>
           (\<forall>x \<in> set (butlast ins). te \<le> snd (snd x)) \<and>
           fst ` set (cache c') = fst ` set ins - {e} \<and>
           int (length (cache c')) = m \<and>
           entry_of c' e = (None, None, None) \<and>
           (\<forall>ttl now. fst (get_cm c' e ttl now) = None) \<and>
           (\<forall>x \<in> set ins. fst x \<noteq> e \<longrightarrow>
              entry_of c' (fst x) = (Some (fst (snd x)), Some (snd (snd x)), Some 0) \<and>
              (\<forall>ttl now. now - snd (snd x) < real_of_int ttl \<longrightarrow>
                 fst (get_cm c' (fst x) ttl now) = Some (fst (snd x))))"
    by (intro overfill_evicts_one_entries) simp_all
qed

theorem set_evicts_least_then_inserts_witness:
  "(wf_cm (filled 2 [(''a'', 1::nat, 10), (''b'', 2, 5)]) \<and>
    cache (filled 2 [(''a'', 1::nat, 10), (''b'', 2, 5)]) \<noteq> [] \<and>
    max_size (filled 2 [(''a'', 1::nat, 10), (''b'', 2, 5)])
      \<le> int (length (cache (filled 2 [(''a'', 1::nat, 10), (''b'', 2, 5)])))) \<and>
   (\<exists>e. set_cm (filled 2 [(''a'', 1::nat, 10), (''b'', 2, 5)]) ''c'' 3 20
          = Inr (store_cm ''c'' 3 20 (remove_cm e (filled 2 [(''a'', 1::nat, 10), (''b'', 2, 5)])))) \<and>
   ((1::int) \<le> 2 \<and> distinct (map fst [(''a'', 1::nat, 10::real), (''b'', 2, 5), (''c'', 3, 20)]) \<and>
    int (length [(''a'', 1::nat, 10::real), (''b'', 2, 5), (''c'', 3, 20)]) = 2 + 1) \<and>
   (\<exists>c'. run_cm (set_ops [(''a'', 1::nat, 10), (''b'', 2, 5), (''c'', 3, 20)]) (init_cm 2) = Inr c' \<and>
       fst ` set (cache c') = {''a'', ''c''} \<and>
       fst (get_cm c' ''a'' 1800 30) = Some 1 \<and>
       fst (get_cm c' ''c'' 1800 30) = Some 3 \<and>
       fst (get_cm c' ''b'' 1800 30) = None)"
proof -
  let ?c = "filled 2 [(''a'', 1::nat, 10), (''b'', 2, 5)]"
  let ?ins = "[(''a'', 1::nat, 10::real), (''b'', 2, 5), (''c'', 3, 20)]"
  note T = set_evicts_least_then_inserts [of ?c "''c''" 3 20 2 ?ins]
  have h1: "wf_cm ?c \<and> cache ?c \<noteq> [] \<and> max_size ?c \<le> int (length (cache ?c))"
    by (simp add: wf_cm_def filled_def)
  have h2: "(1::int) \<le> 2 \<and> distinct (map fst ?ins) \<and> int (length ?ins) = 2 + 1"
    by simp
  have a: "\<exists>e. set_cm ?c ''c'' 3 20 = Inr (store_cm ''c'' 3 20 (remove_cm e ?c))"
    using T [THEN conjunct1, THEN mp, OF h1] by (elim exE conjE) (rule exI)
  obtain c' e ve te where r: "run_cm (set_ops ?ins) (init_cm 2) = Inr c'"
      and mem: "(e, ve, te) \<in> set (butlast ?ins)"
      and least: "\<forall>x \<in> set (butlast ?ins). te \<le> snd (snd x)"
      and keys: "fst ` set (cache c') = fst ` set ?ins - {e}"
      and gone: "\<forall>ttl now. fst (get_cm c' e ttl now) = None"
      and vals: "\<forall>x \<in> set ?ins. fst x \<noteq> e \<longrightarrow>
              entry_of c' (fst x) = (Some (fst (snd x)), Some (snd (snd x)), Some 0) \<and>
              (\<forall>ttl now. now - snd (snd x) < real_of_int ttl \<longrightarrow>
                 fst (get_cm c' (fst x) ttl now) = Some (fst (snd x)))"
    using T [THEN conjunct2, THEN mp, OF h2]
    by (elim exE conjE) (rule that, assumption+)
  have e: "e = ''b''" using mem least by auto
  have ka: "fst ` set (cache c') = {''a'', ''c''}" using keys e by auto
  have ga: "fst (get_cm c' ''a'' 1800 30) = Some 1"
    using vals e by simp
  have gc: "fst (get_cm c' ''c'' 1800 30) = Some 3"
    using vals e by simp
  have gb: "fst (get_cm c' ''b'' 1800 30) = None" using gone e by simp
  have b: "\<exists>c'. run_cm (set_ops ?ins) (init_cm 2) = Inr c' \<and>
       fst ` set (cache c') = {''a'', ''c''} \<and>
       fst (get_cm c' ''a'' 1800 30) = Some 1 \<and>
       fst (get_cm c' ''c'' 1800 30) = Some 3 \<and>
       fst (get_cm c' ''b'' 1800 30) = None"
    by (intro exI [of _ c'] conjI) (rule r ka ga gc gb)+
  show ?thesis by (rule conjI [OF h1 conjI [OF a conjI [OF h2 b]]])
qed


section \<open>Properties of the time validator\<close>

lemma datetime_min_value: "datetime_min = - 62135596800000000"
  by (simp add: datetime_min_def days_from_civil_def td_days_def)

lemma datetime_max_value: "datetime_max = 253402300799999999"
  by (simp add: datetime_max_def days_from_civil_def td_days_def)

lemma make_datetime_last_day: "make_datetime 9999 12 31 23 59 = Inr 253402300740000000"
  by (simp add: make_datetime_def c_int_error_def days_in_month_def days_from_civil_def
      td_days_def td_hours_def td_minutes_def)

lemma localize_last_day:
  "localize utcoffset 253402300740000000 = Inl (OverflowError ''date value out of range'')"
  by (simp add: localize_def datetime_add_def datetime_min_value datetime_max_value td_days_def)

text \<open>
  The validator away from the two ends of the calendar, with a clock that is at least 90
  days after the least datetime: it returns, and the code it returns is \<^verbatim>\<open>FUTURE_TIME\<close>
  exactly when the target is after now, \<^verbatim>\<open>TIME_TOO_RECENT\<close> exactly when it is within
  the last 30 minutes, \<^verbatim>\<open>TIME_TOO_OLD\<close> exactly when it is more than 90 days back, and
  none exactly in the remaining window, where it returns the window descriptor.
\<close>

lemma localize_in_range:
  "datetime_min + td_days 1 \<le> dt \<Longrightarrow> dt + td_days 1 \<le> datetime_max \<Longrightarrow>
     localize utcoffset dt = Inr \<lparr>wall = dt, utcoff = utcoffset dt\<rparr>"
  by (simp add: localize_def datetime_add_def td_days_def)

lemma aware_add_in_range:
  "datetime_min \<le> wall a + d \<Longrightarrow> wall a + d \<le> datetime_max \<Longrightarrow>
     aware_add a d = Inr (a\<lparr>wall := wall a + d\<rparr>)"
  by (simp add: aware_add_def datetime_add_def)

lemma validator_outcomes_in_range:
  assumes mk: "make_datetime year month day hour minute = Inr naive"
    and r1: "datetime_min + td_days 1 \<le> naive" and r2: "naive + td_days 1 \<le> datetime_max"
    and n1: "datetime_min + td_days 90 \<le> wall now" and n2: "wall now \<le> datetime_max"
  shows "\<exists>valid code info.
           validate_prediction_request utcoffset now year month day hour minute
             = Inr (valid, code, info) \<and>
           (code = Some FUTURE_TIME \<longleftrightarrow> instant now < naive - utcoffset naive) \<and>
           (code = Some TIME_TOO_RECENT \<longleftrightarrow>
              instant now - td_minutes 30 < naive - utcoffset naive \<and>
              naive - utcoffset naive \<le> instant now) \<and>
           (code = Some TIME_TOO_OLD \<longleftrightarrow> naive - utcoffset naive < instant now - td_days 90) \<and>
           (code = None \<longleftrightarrow>
              instant now - td_days 90 \<le> naive - utcoffset naive \<and>
              naive - utcoffset naive \<le> instant now - td_minutes 30) \<and>
           (valid \<longleftrightarrow> code = None) \<and>
           (valid \<longrightarrow>
              info = Window_info naive (naive + td_hours 1) (naive - td_hours 2)
                       (naive - td_hours 1) naive)"
proof -
  let ?t = "\<lparr>wall = naive, utcoff = utcoffset naive\<rparr>"
  have l: "localize utcoffset naive = Inr ?t" by (rule localize_in_range [OF r1 r2])
  have p: "aware_add ?t (td_hours 1) = Inr (?t\<lparr>wall := naive + td_hours 1\<rparr>)"
    using r1 r2 aware_add_in_range [of ?t "td_hours 1"] by (simp add: td_days_def td_hours_def)
  have s: "aware_add now (- td_minutes 30) = Inr (now\<lparr>wall := wall now - td_minutes 30\<rparr>)"
    using n1 n2 aware_add_in_range [of now "- td_minutes 30"]
    by (simp add: td_days_def td_minutes_def)
  have o: "aware_add now (- td_days 90) = Inr (now\<lparr>wall := wall now - td_days 90\<rparr>)"
    using n1 n2 aware_add_in_range [of now "- td_days 90"] by (simp add: td_days_def)
  have t2: "aware_add ?t (- td_hours 2) = Inr (?t\<lparr>wall := naive - td_hours 2\<rparr>)"
    using r1 r2 aware_add_in_range [of ?t "- td_hours 2"] by (simp add: td_days_def td_hours_def)
  have t1: "aware_add ?t (- td_hours 1) = Inr (?t\<lparr>wall := naive - td_hours 1\<rparr>)"
    using r1 r2 aware_add_in_range [of ?t "- td_hours 1"] by (simp add: td_days_def td_hours_def)
  let ?T = "naive - utcoffset naive" and ?N = "instant now"
  let ?r = "if ?N < ?T then (False, Some FUTURE_TIME, Details)
            else if ?N - td_minutes 30 < ?T then (False, Some TIME_TOO_RECENT, Details)
            else if ?T < ?N - td_days 90 then (False, Some TIME_TOO_OLD, Details)
            else (True, None, Window_info naive (naive + td_hours 1) (naive - td_hours 2)
                                (naive - td_hours 1) naive)"
  have res: "validate_prediction_request utcoffset now year month day hour minute = Inr ?r"
    unfolding validate_prediction_request_def
    by (simp add: mk l p s o t2 t1 instant_def)
  have c1: "fst (snd ?r) = Some FUTURE_TIME \<longleftrightarrow> ?N < ?T" by simp
  have c2: "fst (snd ?r) = Some TIME_TOO_RECENT \<longleftrightarrow> ?N - td_minutes 30 < ?T \<and> ?T \<le> ?N"
    by (auto simp: td_minutes_def)
  have c3: "fst (snd ?r) = Some TIME_TOO_OLD \<longleftrightarrow> ?T < ?N - td_days 90"
    by (auto simp: td_minutes_def td_days_def)
  have c4: "fst (snd ?r) = None \<longleftrightarrow> ?N - td_days 90 \<le> ?T \<and> ?T \<le> ?N - td_minutes 30"
    by (auto simp: td_minutes_def td_days_def)
  have c5: "fst ?r \<longleftrightarrow> fst (snd ?r) = None" by simp
  have c6: "fst ?r \<longrightarrow> snd (snd ?r) = Window_info naive (naive + td_hours 1) (naive - td_hours 2)
                       (naive - td_hours 1) naive" by simp
  have e: "validate_prediction_request utcoffset now year month day hour minute
          = Inr (fst ?r, fst (snd ?r), snd (snd ?r))"
    unfolding res by simp
  show ?thesis
    by (intro exI conjI) (rule e c1 c2 c3 c4 c5 c6)+
qed

text \<open>
  Claim C1 says that every target timestamp after \<open>now\<close> is rejected with
  \<^verbatim>\<open>FUTURE_TIME\<close>, as the comment of rule 1 in the source does. The target
  9999-12-31 23:59 is a datetime that the constructor accepts and it is after every clock
  reading, but the validator returns no code for it: \<^verbatim>\<open>localize\<close> raises
  \<^verbatim>\<open>OverflowError\<close> before the first rule is evaluated.
\<close>

theorem validator_raises_on_last_day:
  "make_datetime 9999 12 31 23 59 = Inr 253402300740000000 \<and>
   validate_prediction_request utcoffset now 9999 12 31 23 59
     = Inl (OverflowError ''date value out of range'')"
  by (simp add: validate_prediction_request_def make_datetime_last_day localize_last_day)


section \<open>Properties of the weather lookup\<close>

lemma date_of_split: "0 \<le> tod \<Longrightarrow> tod < td_days 1 \<Longrightarrow> date_of (td_days d + tod) = d"
  by (simp add: date_of_def td_days_def)

text \<open>
  Claim C7. The weather lookup chooses its provider by comparing calendar dates only: for
  a target on day \<open>dt\<close> and a current time on day \<open>dn\<close>, whatever the two times of day,
  it calls the forecast provider when \<open>dt \<ge> dn\<close> and the archive provider otherwise;
  a target earlier today is in the past and still goes to the forecast provider.
\<close>

theorem weather_source_by_date:
  assumes "0 \<le> tod" "tod < td_days 1" "0 \<le> tod'" "tod' < td_days 1"
  shows "date_of (td_days dt + tod) = dt \<and> date_of (td_days dn + tod') = dn \<and>
         fetch_weather_at_time forecast archive (td_days dn + tod') (td_days dt + tod) lat lon =
           (if dn \<le> dt then forecast (td_days dt + tod) lat lon
            else archive (td_days dt + tod) lat lon)"
  using assms by (simp add: fetch_weather_at_time_def date_of_split)

theorem weather_source_by_date_witness:
  "(0::int) \<le> td_hours 3 \<and> td_hours 3 < td_days 1 \<and> (0::int) \<le> td_hours 12 \<and> td_hours 12 < td_days 1 \<and>
   td_days 20417 + td_hours 3 < td_days 20417 + td_hours 12 \<and>
   fetch_weather_at_time (\<lambda>t la lo. Inr \<lparr>w_temperature_2m = Some 30, w_relative_humidity_2m = Some 80,
        w_precipitation = Some 0, w_pressure_msl = Some 1010, w_windspeed_10m = Some 3,
        w_winddirection_10m = Some 90, w_shortwave_radiation = Some 0\<rparr>)
     (\<lambda>t la lo. Inl (ValueError ''No weather data available''))
     (td_days 20417 + td_hours 12) (td_days 20417 + td_hours 3) 10.8 106.6
   = Inr \<lparr>w_temperature_2m = Some 30, w_relative_humidity_2m = Some 80,
        w_precipitation = Some 0, w_pressure_msl = Some 1010, w_windspeed_10m = Some 3,
        w_winddirection_10m = Some 90, w_shortwave_radiation = Some 0\<rparr>"
  using weather_source_by_date [of "td_hours 3" "td_hours 12" 20417 20417]
  by (simp add: td_hours_def td_days_def)


section \<open>Properties of the feature engine\<close>

subsection \<open>Frames of snapshots\<close>

lemma upt3: "[0..<3] = [0, 1, 2]"
  by (simp add: upt_rec)

lemma sort_index_sorted:
  assumes "sorted (index df)"
  shows "sort_index df = take_rows [0..<n_rows df] df"
proof -
  have "map (\<lambda>i. index df ! i) [0..<length (index df)] = index df" by (rule map_nth)
  then have "sorted (map (\<lambda>i. index df ! i) [0..<n_rows df])"
    using assms by (simp add: n_rows_def)
  then show ?thesis by (simp add: sort_index_def sort_key_id_if_sorted)
qed

lemma sort_index_3:
  "i2 \<le> i1 \<Longrightarrow> i1 \<le> i0 \<Longrightarrow>
   sort_index (frame_of_snapshots [r2, r1, r0]\<lparr>index := [i2, i1, i0]\<rparr>) = frame_of_snapshots [r2, r1, r0]\<lparr>index := [i2, i1, i0]\<rparr>"
  apply (subst sort_index_sorted)
   apply simp
  apply (simp add: n_rows_def take_rows_def frame_of_snapshots_def upt3)
  done


lemma complete_cases:
  assumes "complete r"
  obtains t v1 v2 v3 v4 v5 v6 v7 v8 v9 v10 v11 v12 v13 v14 v15 where
    "r = \<lparr>datetime = t, co = Some v1, no = Some v2, no2 = Some v3, o3 = Some v4, so2 = Some v5,
          pm2_5 = Some v6, pm10 = Some v7, nh3 = Some v8, temperature_2m = Some v9,
          relative_humidity_2m = Some v10, precipitation = Some v11, pressure_msl = Some v12,
          windspeed_10m = Some v13, winddirection_10m = Some v14, shortwave_radiation = Some v15\<rparr>"
proof -
  from assms obtain v1 v2 v3 v4 v5 v6 v7 v8 v9 v10 v11 v12 v13 v14 v15 where
    "co r = Some v1" "no r = Some v2" "no2 r = Some v3" "o3 r = Some v4" "so2 r = Some v5"
    "pm2_5 r = Some v6" "pm10 r = Some v7" "nh3 r = Some v8" "temperature_2m r = Some v9"
    "relative_humidity_2m r = Some v10" "precipitation r = Some v11" "pressure_msl r = Some v12"
    "windspeed_10m r = Some v13" "winddirection_10m r = Some v14" "shortwave_radiation r = Some v15"
    unfolding complete_def by blast
  then have "r = \<lparr>datetime = datetime r, co = Some v1, no = Some v2, no2 = Some v3, o3 = Some v4, so2 = Some v5,
          pm2_5 = Some v6, pm10 = Some v7, nh3 = Some v8, temperature_2m = Some v9,
          relative_humidity_2m = Some v10, precipitation = Some v11, pressure_msl = Some v12,
          windspeed_10m = Some v13, winddirection_10m = Some v14, shortwave_radiation = Some v15\<rparr>"
    by simp
  then show ?thesis by (rule that)
qed

lemma series3:
  "shift (Suc 0) [a, b, c] = [None, a, b]"
  "shift 2 [a, b, c] = [None, None, a]"
  "diff (Suc 0) [a, b, c] = [None, lift2 (\<lambda>x y. x - y) b a, lift2 (\<lambda>x y. x - y) c b]"
  by (simp_all add: shift_def diff_def lift2_def split: option.splits)

lemma first_missing_snapshots: "first_missing (frame_of_snapshots rows) read_cols = None"
  by (simp add: first_missing_def read_cols_def frame_of_snapshots_def)

lemma column_snapshots:
  "column (frame_of_snapshots rows) ''co'' = map co rows"
  "column (frame_of_snapshots rows) ''no'' = map no rows"
  "column (frame_of_snapshots rows) ''no2'' = map no2 rows"
  "column (frame_of_snapshots rows) ''o3'' = map o3 rows"
  "column (frame_of_snapshots rows) ''so2'' = map so2 rows"
  "column (frame_of_snapshots rows) ''pm2_5'' = map pm2_5 rows"
  "column (frame_of_snapshots rows) ''pm10'' = map pm10 rows"
  "column (frame_of_snapshots rows) ''nh3'' = map nh3 rows"
  "column (frame_of_snapshots rows) ''temperature_2m'' = map temperature_2m rows"
  "column (frame_of_snapshots rows) ''relative_humidity_2m'' = map relative_humidity_2m rows"
  "column (frame_of_snapshots rows) ''precipitation'' = map precipitation rows"
  "column (frame_of_snapshots rows) ''pressure_msl'' = map pressure_msl rows"
  "column (frame_of_snapshots rows) ''windspeed_10m'' = map windspeed_10m rows"
  "column (frame_of_snapshots rows) ''winddirection_10m'' = map winddirection_10m rows"
  "column (frame_of_snapshots rows) ''shortwave_radiation'' = map shortwave_radiation rows"
  by (simp_all add: column_def dict_get_def frame_of_snapshots_def)

lemma index_snapshots: "index (frame_of_snapshots rows) = map datetime rows"
  by (simp add: frame_of_snapshots_def)

lemma take_rows_all:
  "wf_frame df \<Longrightarrow> take_rows [0..<n_rows df] df = df"
proof -
  assume wf: "wf_frame df"
  have i: "map (\<lambda>i. index df ! i) [0..<n_rows df] = index df"
    unfolding n_rows_def by (rule map_nth)
  have "map (\<lambda>c. (fst c, map (\<lambda>i. snd c ! i) [0..<n_rows df])) (columns df) = columns df"
  proof (rule map_idI)
    fix c assume "c \<in> set (columns df)"
    then have "length (snd c) = n_rows df"
      using wf by (simp add: wf_frame_def n_rows_def list_all_iff)
    then have "map (\<lambda>i. snd c ! i) [0..<n_rows df] = snd c"
      using map_nth [of "snd c"] by simp
    then show "(fst c, map (\<lambda>i. snd c ! i) [0..<n_rows df]) = c" by simp
  qed
  with i show ?thesis by (simp add: take_rows_def)
qed

lemma wf_frame_snapshots: "wf_frame (frame_of_snapshots rows)"
  by (simp add: wf_frame_def frame_of_snapshots_def)

lemma sort_index_snapshots:
  "sorted (map datetime rows) \<Longrightarrow> sort_index (frame_of_snapshots rows) = frame_of_snapshots rows"
  using sort_index_sorted [of "frame_of_snapshots rows"] take_rows_all [OF wf_frame_snapshots, of rows]
  by (simp add: index_snapshots)

subsection \<open>Rolling windows of three rows\<close>

lemma lift2_None [simp]: "lift2 f a b = None \<longleftrightarrow> a = None \<or> b = None"
  by (simp add: lift2_def split: option.splits)

lemma rolling3_last:
  "rolling 3 m agg [a, b, c] ! 2 = (let obs = observed [a, b, c] in if m \<le> length obs then agg obs else None)"
  by (simp add: rolling_def window_def upt3)

lemma observed_simps [simp]:
  "observed [] = []"
  "observed (Some x # xs) = x # observed xs"
  "observed (None # xs) = observed xs"
  by (simp_all add: observed_def)

lemma observed_nonempty: "c \<noteq> None \<Longrightarrow> observed [a, b, c] \<noteq> []"
  by (cases a; cases b; cases c) auto

lemma observed_two: "b \<noteq> None \<Longrightarrow> c \<noteq> None \<Longrightarrow> 2 \<le> length (observed [a, b, c])"
  by (cases a; cases b; cases c) auto

lemma rolling3_defined:
  "c \<noteq> None \<Longrightarrow> rolling 3 1 agg_mean [a, b, c] ! 2 \<noteq> None"
  "c \<noteq> None \<Longrightarrow> rolling 3 1 agg_min [a, b, c] ! 2 \<noteq> None"
  "c \<noteq> None \<Longrightarrow> rolling 3 1 agg_sum [a, b, c] ! 2 \<noteq> None"
  "b \<noteq> None \<Longrightarrow> c \<noteq> None \<Longrightarrow> rolling 3 1 agg_std [a, b, c] ! 2 \<noteq> None"
proof -
  show "c \<noteq> None \<Longrightarrow> rolling 3 1 agg_mean [a, b, c] ! 2 \<noteq> None"
    using observed_nonempty [of c a b]
    by (cases "observed [a, b, c]") (simp_all add: rolling3_last agg_mean_def Let_def)
  show "c \<noteq> None \<Longrightarrow> rolling 3 1 agg_min [a, b, c] ! 2 \<noteq> None"
    using observed_nonempty [of c a b]
    by (cases "observed [a, b, c]") (simp_all add: rolling3_last agg_min_def Let_def)
  show "c \<noteq> None \<Longrightarrow> rolling 3 1 agg_sum [a, b, c] ! 2 \<noteq> None"
    using observed_nonempty [of c a b]
    by (cases "observed [a, b, c]") (simp_all add: rolling3_last agg_sum_def Let_def)
  show "b \<noteq> None \<Longrightarrow> c \<noteq> None \<Longrightarrow> rolling 3 1 agg_std [a, b, c] ! 2 \<noteq> None"
    using observed_two [of b c a]
    by (simp add: rolling3_last agg_std_def Let_def)
qed

subsection \<open>The features of a three-hour window\<close>

lemma feature_columns_three:
  "feature_columns_of (frame_of_snapshots [r2, r1, r0]) = features3 r2 r1 r0"
  unfolding features3_def
  by (simp add: feature_columns_of_def column_snapshots index_snapshots original_cols_def Let_def
      series3)

lemma length_features3: "length (features3 r2 r1 r0) = 40"
  by (simp add: features3_def)


lemma map_of_map_snd:
  "map_of (map (\<lambda>c. (fst c, g (snd c))) al) k = map_option g (map_of al k)"
  by (induction al) auto

lemma dropna_three:
  assumes "complete r2" "complete r1" "complete r0"
  shows "dropna \<lparr>index = [datetime r2, datetime r1, datetime r0], columns = features3 r2 r1 r0\<rparr>
         = take_rows [2] \<lparr>index = [datetime r2, datetime r1, datetime r0], columns = features3 r2 r1 r0\<rparr>"
proof -
  let ?df = "\<lparr>index = [datetime r2, datetime r1, datetime r0], columns = features3 r2 r1 r0\<rparr>"
  have r0: "\<not> list_all (\<lambda>c. snd c ! 0 \<noteq> None) (features3 r2 r1 r0)"
    by (simp add: features3_def)
  have r1: "\<not> list_all (\<lambda>c. snd c ! Suc 0 \<noteq> None) (features3 r2 r1 r0)"
    by (simp add: features3_def)
  have r2: "list_all (\<lambda>c. snd c ! 2 \<noteq> None) (features3 r2 r1 r0)"
    using assms
    by (auto simp: features3_def complete_def rolling3_last agg_mean_def agg_std_def agg_min_def
        agg_sum_def Let_def lift2_def)
  show ?thesis
    using r0 r1 r2 by (simp add: dropna_def n_rows_def upt3 numeral_2_eq_2)
qed

lemma create_features_three:
  assumes ord: "sorted (map datetime [r2, r1, r0])"
    and c: "complete r2" "complete r1" "complete r0"
  shows "create_features_from_3hours (frame_of_snapshots [r2, r1, r0])
           = Inr \<lparr>index = [datetime r0],
                  columns = map (\<lambda>c. (fst c, [snd c ! 2])) (features3 r2 r1 r0)\<rparr>"
proof -
  let ?F = "frame_of_snapshots [r2, r1, r0]"
  let ?G = "\<lparr>index = [datetime r2, datetime r1, datetime r0], columns = features3 r2 r1 r0\<rparr>"
  have n: "n_rows ?F = 3" by (simp add: n_rows_def index_snapshots)
  have s: "sort_index ?F = ?F" by (rule sort_index_snapshots [OF ord])
  have g: "\<lparr>index = index ?F, columns = feature_columns_of ?F\<rparr> = ?G"
    by (simp add: index_snapshots feature_columns_three)
  have d: "dropna ?G = take_rows [2] ?G" by (rule dropna_three [OF c])
  have t: "tail (Suc 0) (take_rows [2] ?G)
             = \<lparr>index = [datetime r0], columns = map (\<lambda>c. (fst c, [snd c ! 2])) (features3 r2 r1 r0)\<rparr>"
    by (simp add: tail_def) (simp add: take_rows_def n_rows_def comp_def)
  have e: "n_rows (take_rows [2] ?G) \<noteq> 0" by (simp add: take_rows_def n_rows_def)
  show ?thesis
    unfolding create_features_from_3hours_def
    by (simp add: n first_missing_snapshots s g d e t Let_def)
qed

lemma features3_lookup:
  "map_of (features3 r2 r1 r0) ''pm2_5_lag_1'' = Some [None, pm2_5 r2, pm2_5 r1]"
  "map_of (features3 r2 r1 r0) ''pm2_5_lag_2'' = Some [None, None, pm2_5 r2]"
  "map_of (features3 r2 r1 r0) ''pm2_5_roll_avg_3hr''
     = Some (rolling 3 1 agg_mean [pm2_5 r2, pm2_5 r1, pm2_5 r0])"
  "map_of (features3 r2 r1 r0) ''pm2_5_diff_1hr''
     = Some [None, lift2 (\<lambda>x y. x - y) (pm2_5 r1) (pm2_5 r2), lift2 (\<lambda>x y. x - y) (pm2_5 r0) (pm2_5 r1)]"
  by (simp_all add: features3_def)

text \<open>
  Claim C2. For a window of three snapshots in time order, none with a NaN measurement,
  whose \<^verbatim>\<open>pm2_5\<close> values are 10, 20 and 30 at t-2, t-1 and t-0,
  \<^verbatim>\<open>create_features_from_3hours\<close> returns a frame of one row, the row of t-0, with forty
  columns, in which \<^verbatim>\<open>pm2_5_lag_1\<close> is 20, \<^verbatim>\<open>pm2_5_lag_2\<close> is 10,
  \<^verbatim>\<open>pm2_5_roll_avg_3hr\<close> is 20 and \<^verbatim>\<open>pm2_5_diff_1hr\<close> is 10.
\<close>

theorem features_of_10_20_30:
  assumes "sorted (map datetime [r2, r1, r0])"
    and "complete r2" "complete r1" "complete r0"
    and "pm2_5 r2 = Some 10" "pm2_5 r1 = Some 20" "pm2_5 r0 = Some 30"
  shows "\<exists>f. create_features_from_3hours (frame_of_snapshots [r2, r1, r0]) = Inr f \<and>
           index f = [datetime r0] \<and> length (columns f) = 40 \<and>
           map_of (columns f) ''pm2_5_lag_1'' = Some [Some 20] \<and>
           map_of (columns f) ''pm2_5_lag_2'' = Some [Some 10] \<and>
           map_of (columns f) ''pm2_5_roll_avg_3hr'' = Some [Some 20] \<and>
           map_of (columns f) ''pm2_5_diff_1hr'' = Some [Some 10]"
proof -
  have r: "rolling 3 (Suc 0) agg_mean [Some 10, Some 20, Some 30] ! 2 = Some 20"
    by (simp add: rolling3_last) (simp add: agg_mean_def mean_def)
  show ?thesis
    unfolding create_features_three [OF assms(1-4)]
    by (simp add: map_of_map_snd [where g = "\<lambda>col. [col ! 2]"] features3_lookup length_features3 assms(5-7) r lift2_def)
qed

text \<open>The window of 2025-11-25 at 10:00, 11:00 and 12:00, every other measurement 1.\<close>

theorem features_of_10_20_30_witness:
  "let s = (\<lambda>t v. \<lparr>datetime = t, co = Some 1, no = Some 1, no2 = Some 1, o3 = Some 1,
                      so2 = Some 1, pm2_5 = Some v, pm10 = Some 1, nh3 = Some 1,
                      temperature_2m = Some 1, relative_humidity_2m = Some 1,
                      precipitation = Some 1, pressure_msl = Some 1, windspeed_10m = Some 1,
                      winddirection_10m = Some 1, shortwave_radiation = Some 1\<rparr>);
       r2 = s 1764064800000000 10; r1 = s 1764068400000000 20; r0 = s 1764072000000000 30
   in sorted (map datetime [r2, r1, r0]) \<and> complete r2 \<and> complete r1 \<and> complete r0 \<and>
      (\<exists>f. create_features_from_3hours (frame_of_snapshots [r2, r1, r0]) = Inr f \<and>
           index f = [1764072000000000] \<and> length (columns f) = 40 \<and>
           map_of (columns f) ''pm2_5_lag_1'' = Some [Some 20] \<and>
           map_of (columns f) ''pm2_5_lag_2'' = Some [Some 10] \<and>
           map_of (columns f) ''pm2_5_roll_avg_3hr'' = Some [Some 20] \<and>
           map_of (columns f) ''pm2_5_diff_1hr'' = Some [Some 10])"
  using features_of_10_20_30
    [of "\<lparr>datetime = 1764064800000000, co = Some 1, no = Some 1, no2 = Some 1, o3 = Some 1,
                      so2 = Some 1, pm2_5 = Some 10, pm10 = Some 1, nh3 = Some 1,
                      temperature_2m = Some 1, relative_humidity_2m = Some 1,
                      precipitation = Some 1, pressure_msl = Some 1, windspeed_10m = Some 1,
                      winddirection_10m = Some 1, shortwave_radiation = Some 1\<rparr>"
        "\<lparr>datetime = 1764068400000000, co = Some 1, no = Some 1, no2 = Some 1, o3 = Some 1,
                      so2 = Some 1, pm2_5 = Some 20, pm10 = Some 1, nh3 = Some 1,
                      temperature_2m = Some 1, relative_humidity_2m = Some 1,
                      precipitation = Some 1, pressure_msl = Some 1, windspeed_10m = Some 1,
                      winddirection_10m = Some 1, shortwave_radiation = Some 1\<rparr>"
        "\<lparr>datetime = 1764072000000000, co = Some 1, no = Some 1, no2 = Some 1, o3 = Some 1,
                      so2 = Some 1, pm2_5 = Some 30, pm10 = Some 1, nh3 = Some 1,
                      temperature_2m = Some 1, relative_humidity_2m = Some 1,
                      precipitation = Some 1, pressure_msl = Some 1, windspeed_10m = Some 1,
                      winddirection_10m = Some 1, shortwave_radiation = Some 1\<rparr>"]
  by (simp add: Let_def complete_def)

subsection \<open>The input frame is left as it was\<close>

lemma n_rows_take_rows [simp]: "n_rows (take_rows is df) = length is"
  by (simp add: n_rows_def take_rows_def)

lemma columns_sort_index_None:
  "map_of (columns (sort_index df)) k = None \<longleftrightarrow> map_of (columns df) k = None"
  by (simp add: sort_index_def take_rows_def map_of_eq_None_iff image_image)

lemma first_missing_sort_index:
  "first_missing (sort_index df) names = first_missing df names"
  by (simp add: first_missing_def columns_sort_index_None)

lemma first_missing_pm2_5:
  "map_of (columns df) ''pm2_5'' = None \<Longrightarrow> first_missing df read_cols = Some ''pm2_5''"
  by (simp add: first_missing_def read_cols_def)

lemma n_rows_tail_1: "0 < n_rows df \<Longrightarrow> n_rows (tail (Suc 0) df) = Suc 0"
  by (simp add: tail_def)

text \<open>
  Claim C10. \<^verbatim>\<open>create_features_from_3hours\<close> never mutates its input: after the call
  every object that the store held before, the input frame among them, is what it was,
  whether the call returns or raises; a returned frame is an object that the store did not
  hold before, it has one row, and it is the frame that the function on values computes.
\<close>

theorem create_features_leaves_input:
  "case create_features_from_3hours_in h df_3hours of
     (h', r) \<Rightarrow>
       length h \<le> length h' \<and> (\<forall>a < length h. h' ! a = h ! a) \<and>
       (case r of
          Inl e \<Rightarrow> create_features_from_3hours (h ! df_3hours) = Inl e
        | Inr a \<Rightarrow> length h \<le> a \<and> a < length h' \<and> n_rows (h' ! a) = 1 \<and>
                   create_features_from_3hours (h ! df_3hours) = Inr (h' ! a))"
proof -
  let ?F = "h ! df_3hours"
  consider (short) "n_rows ?F < 3"
    | (nopm) "\<not> n_rows ?F < 3" "map_of (columns ?F) ''pm2_5'' = None"
    | (miss) k where "\<not> n_rows ?F < 3" "map_of (columns ?F) ''pm2_5'' \<noteq> None"
        "first_missing ?F read_cols = Some k"
    | (full) "\<not> n_rows ?F < 3" "map_of (columns ?F) ''pm2_5'' \<noteq> None"
        "first_missing ?F read_cols = None"
    by (cases "first_missing ?F read_cols") auto
  then show ?thesis
  proof cases
    case short
    then show ?thesis
      by (simp add: create_features_from_3hours_in_def create_features_from_3hours_def)
  next
    case nopm
    then show ?thesis
      by (simp add: create_features_from_3hours_in_def create_features_from_3hours_def
          first_missing_pm2_5 key_error_def)
  next
    case miss
    then show ?thesis
      by (auto simp add: create_features_from_3hours_in_def create_features_from_3hours_def
          alloc_def first_missing_sort_index nth_append key_error_def)
  next
    case full
    then show ?thesis
      by (auto simp add: create_features_from_3hours_in_def create_features_from_3hours_def
          alloc_def first_missing_sort_index nth_append Let_def n_rows_tail_1)
  qed
qed

text \<open>The same window as the only object of the store.\<close>

theorem create_features_leaves_input_witness:
  "let s = (\<lambda>t v. \<lparr>datetime = t, co = Some 1, no = Some 1, no2 = Some 1, o3 = Some 1,
                      so2 = Some 1, pm2_5 = Some v, pm10 = Some 1, nh3 = Some 1,
                      temperature_2m = Some 1, relative_humidity_2m = Some 1,
                      precipitation = Some 1, pressure_msl = Some 1, windspeed_10m = Some 1,
                      winddirection_10m = Some 1, shortwave_radiation = Some 1\<rparr>);
       df_3hours = frame_of_snapshots
         [s 1764064800000000 10, s 1764068400000000 20, s 1764072000000000 30]
   in \<exists>h' a. create_features_from_3hours_in [df_3hours] 0 = (h', Inr a) \<and>
        h' ! 0 = df_3hours \<and> 1 \<le> a \<and> a < length h' \<and> n_rows (h' ! a) = 1 \<and>
        index (h' ! a) = [1764072000000000]"
proof -
  let ?r2 = "\<lparr>datetime = 1764064800000000, co = Some 1, no = Some 1, no2 = Some 1, o3 = Some 1,
                      so2 = Some 1, pm2_5 = Some 10, pm10 = Some 1, nh3 = Some 1,
                      temperature_2m = Some 1, relative_humidity_2m = Some 1,
                      precipitation = Some 1, pressure_msl = Some 1, windspeed_10m = Some 1,
                      winddirection_10m = Some 1, shortwave_radiation = Some 1\<rparr>"
  let ?r1 = "\<lparr>datetime = 1764068400000000, co = Some 1, no = Some 1, no2 = Some 1, o3 = Some 1,
                      so2 = Some 1, pm2_5 = Some 20, pm10 = Some 1, nh3 = Some 1,
                      temperature_2m = Some 1, relative_humidity_2m = Some 1,
                      precipitation = Some 1, pressure_msl = Some 1, windspeed_10m = Some 1,
                      winddirection_10m = Some 1, shortwave_radiation = Some 1\<rparr>"
  let ?r0 = "\<lparr>datetime = 1764072000000000, co = Some 1, no = Some 1, no2 = Some 1, o3 = Some 1,
                      so2 = Some 1, pm2_5 = Some 30, pm10 = Some 1, nh3 = Some 1,
                      temperature_2m = Some 1, relative_humidity_2m = Some 1,
                      precipitation = Some 1, pressure_msl = Some 1, windspeed_10m = Some 1,
                      winddirection_10m = Some 1, shortwave_radiation = Some 1\<rparr>"
  let ?F = "frame_of_snapshots [?r2, ?r1, ?r0]"
  have p: "create_features_from_3hours ([?F] ! 0)
             = Inr \<lparr>index = [datetime ?r0],
                    columns = map (\<lambda>c. (fst c, [snd c ! 2])) (features3 ?r2 ?r1 ?r0)\<rparr>"
    by (simp add: create_features_three complete_def del: map_eq_Cons_conv)
  obtain h' r where e: "create_features_from_3hours_in [?F] 0 = (h', r)"
    by (cases "create_features_from_3hours_in [?F] 0") 
  have "\<exists>a. r = Inr a \<and> h' ! 0 = ?F \<and> 1 \<le> a \<and> a < length h' \<and> n_rows (h' ! a) = 1 \<and>
          index (h' ! a) = [1764072000000000]"
    using create_features_leaves_input [of "[?F]" 0] unfolding e p
    by (cases r) (auto dest: arg_cong [where f = index])
  with e show ?thesis by (simp add: Let_def)
qed


section \<open>Properties of the predictor\<close>

lemma bind_exn_simps [simp]:
  "bind_exn (Inl e) f = Inl e"
  "bind_exn (Inr x) f = f x"
  by (simp_all add: bind_exn_def)

lemma subscript_Some [simp]: "subscript k (Some x) = Inr x"
  by (simp add: subscript_def)

lemma n_rows_window: "n_rows (sort_index (frame_of_snapshots [a, b, c])) = 3"
  by (simp add: sort_index_def n_rows_def take_rows_def frame_of_snapshots_def)

lemma handler_returns_failure:
  assumes "d_id district = Some i" "d_name district = Some n" "d_name_en district = Some ne"
    "d_lat district = Some la" "d_lon district = Some lo"
    and "try_block utcoffset fetch_air_quality weather_at_time missing_message scaler_transform
          model_predict round2 isoformat district year month day hour minute api_key
          feature_columns include_raw_data = Inl e"
  shows "predict_pm25_for_district utcoffset fetch_air_quality weather_at_time missing_message
          scaler_transform model_predict round2 isoformat district year month day hour minute
          api_key feature_columns include_raw_data
         = Inr (Failure i n ne la lo (exn_msg e) (exn_type e))"
  using assms by (simp add: predict_pm25_for_district_def)

lemma try_block_raises:
  assumes "d_lat district = Some la" "d_lon district = Some lo"
    and "make_datetime year month day hour minute = Inr naive"
    and "localize utcoffset naive = Inr target_time"
    and "aware_add target_time (- td_hours 1) = Inr time_t1"
    and "aware_add target_time (- td_hours 2) = Inr time_t2"
    and "get_15_features_at_time fetch_air_quality weather_at_time time_t2 api_key la lo = r2"
    and "get_15_features_at_time fetch_air_quality weather_at_time time_t1 api_key la lo = r1"
    and "get_15_features_at_time fetch_air_quality weather_at_time target_time api_key la lo = r0"
  shows "r2 = Inl e \<Longrightarrow>
         try_block utcoffset fetch_air_quality weather_at_time missing_message scaler_transform
          model_predict round2 isoformat district year month day hour minute api_key
          feature_columns include_raw_data = Inl e"
    and "r2 = Inr f2 \<Longrightarrow> r1 = Inl e \<Longrightarrow>
         try_block utcoffset fetch_air_quality weather_at_time missing_message scaler_transform
          model_predict round2 isoformat district year month day hour minute api_key
          feature_columns include_raw_data = Inl e"
    and "r2 = Inr f2 \<Longrightarrow> r1 = Inr f1 \<Longrightarrow> r0 = Inl e \<Longrightarrow>
         try_block utcoffset fetch_air_quality weather_at_time missing_message scaler_transform
          model_predict round2 isoformat district year month day hour minute api_key
          feature_columns include_raw_data = Inl e"
    and "r2 = Inr f2 \<Longrightarrow> r1 = Inr f1 \<Longrightarrow> r0 = Inr f0 \<Longrightarrow>
         create_features_from_3hours (sort_index (frame_of_snapshots [f2, f1, f0])) = Inl e \<Longrightarrow>
         try_block utcoffset fetch_air_quality weather_at_time missing_message scaler_transform
          model_predict round2 isoformat district year month day hour minute api_key
          feature_columns include_raw_data = Inl e"
    and "r2 = Inr f2 \<Longrightarrow> r1 = Inr f1 \<Longrightarrow> r0 = Inr f0 \<Longrightarrow>
         create_features_from_3hours (sort_index (frame_of_snapshots [f2, f1, f0])) = Inr df \<Longrightarrow>
         select_features missing_message feature_columns df = Inl e \<Longrightarrow>
         try_block utcoffset fetch_air_quality weather_at_time missing_message scaler_transform
          model_predict round2 isoformat district year month day hour minute api_key
          feature_columns include_raw_data = Inl e"
    and "r2 = Inr f2 \<Longrightarrow> r1 = Inr f1 \<Longrightarrow> r0 = Inr f0 \<Longrightarrow>
         create_features_from_3hours (sort_index (frame_of_snapshots [f2, f1, f0])) = Inr df \<Longrightarrow>
         select_features missing_message feature_columns df = Inr df' \<Longrightarrow>
         scaler_transform df' = Inl e \<Longrightarrow>
         try_block utcoffset fetch_air_quality weather_at_time missing_message scaler_transform
          model_predict round2 isoformat district year month day hour minute api_key
          feature_columns include_raw_data = Inl e"
    and "r2 = Inr f2 \<Longrightarrow> r1 = Inr f1 \<Longrightarrow> r0 = Inr f0 \<Longrightarrow>
         create_features_from_3hours (sort_index (frame_of_snapshots [f2, f1, f0])) = Inr df \<Longrightarrow>
         select_features missing_message feature_columns df = Inr df' \<Longrightarrow>
         scaler_transform df' = Inr X_scaled \<Longrightarrow> model_predict X_scaled = Inl e \<Longrightarrow>
         try_block utcoffset fetch_air_quality weather_at_time missing_message scaler_transform
          model_predict round2 isoformat district year month day hour minute api_key
          feature_columns include_raw_data = Inl e"
  unfolding try_block_def
  using assms by (simp_all add: n_rows_window Let_def)

text \<open>
  Claim C6. For a district that has the keys \<^verbatim>\<open>id\<close>, \<^verbatim>\<open>name\<close>, \<^verbatim>\<open>name_en\<close>, \<^verbatim>\<open>lat\<close> and
  \<^verbatim>\<open>lon\<close>, and for every target time, \<^verbatim>\<open>predict_pm25_for_district\<close> raises nothing:
  it returns what the body of its \<^verbatim>\<open>try\<close> returns, and when the body raises an exception
  it returns the error dict with the id, the names and the coordinates of the district,
  the message of the exception and the name of its type. In particular, for a target
  time that is a datetime, an exception raised by the fetch of the snapshot at t-2, at
  t-1 or at t-0, by the feature engine, by the selection of the columns, by the scaler or
  by the model gives that error dict.
\<close>

theorem predictor_catches_every_exception:
  assumes "d_id district = Some i" "d_name district = Some n" "d_name_en district = Some ne"
    "d_lat district = Some la" "d_lon district = Some lo"
  shows
    "(case try_block utcoffset fetch_air_quality weather_at_time missing_message scaler_transform
             model_predict round2 isoformat district year month day hour minute api_key
             feature_columns include_raw_data of
        Inr result \<Rightarrow>
          predict_pm25_for_district utcoffset fetch_air_quality weather_at_time missing_message
            scaler_transform model_predict round2 isoformat district year month day hour minute
            api_key feature_columns include_raw_data = Inr result
      | Inl e \<Rightarrow>
          predict_pm25_for_district utcoffset fetch_air_quality weather_at_time missing_message
            scaler_transform model_predict round2 isoformat district year month day hour minute
            api_key feature_columns include_raw_data
          = Inr (Failure i n ne la lo (exn_msg e) (exn_type e))) \<and>
     (\<forall>naive target_time time_t1 time_t2 e.
        make_datetime year month day hour minute = Inr naive \<longrightarrow>
        localize utcoffset naive = Inr target_time \<longrightarrow>
        aware_add target_time (- td_hours 1) = Inr time_t1 \<longrightarrow>
        aware_add target_time (- td_hours 2) = Inr time_t2 \<longrightarrow>
        (get_15_features_at_time fetch_air_quality weather_at_time time_t2 api_key la lo = Inl e \<or>
         (\<exists>f2. get_15_features_at_time fetch_air_quality weather_at_time time_t2 api_key la lo = Inr f2 \<and>
           (get_15_features_at_time fetch_air_quality weather_at_time time_t1 api_key la lo = Inl e \<or>
            (\<exists>f1. get_15_features_at_time fetch_air_quality weather_at_time time_t1 api_key la lo = Inr f1 \<and>
              (get_15_features_at_time fetch_air_quality weather_at_time target_time api_key la lo = Inl e \<or>
               (\<exists>f0. get_15_features_at_time fetch_air_quality weather_at_time target_time api_key la lo = Inr f0 \<and>
                 (create_features_from_3hours (sort_index (frame_of_snapshots [f2, f1, f0])) = Inl e \<or>
                  (\<exists>df. create_features_from_3hours (sort_index (frame_of_snapshots [f2, f1, f0])) = Inr df \<and>
                    (select_features missing_message feature_columns df = Inl e \<or>
                     (\<exists>df'. select_features missing_message feature_columns df = Inr df' \<and>
                       (scaler_transform df' = Inl e \<or>
                        (\<exists>X_scaled. scaler_transform df' = Inr X_scaled \<and>
                           model_predict X_scaled = Inl e)))))))))))) \<longrightarrow>
        predict_pm25_for_district utcoffset fetch_air_quality weather_at_time missing_message
          scaler_transform model_predict round2 isoformat district year month day hour minute
          api_key feature_columns include_raw_data
        = Inr (Failure i n ne la lo (exn_msg e) (exn_type e)))"
proof (intro conjI allI impI)
  show "case try_block utcoffset fetch_air_quality weather_at_time missing_message scaler_transform
             model_predict round2 isoformat district year month day hour minute api_key
             feature_columns include_raw_data of
        Inr result \<Rightarrow>
          predict_pm25_for_district utcoffset fetch_air_quality weather_at_time missing_message
            scaler_transform model_predict round2 isoformat district year month day hour minute
            api_key feature_columns include_raw_data = Inr result
      | Inl e \<Rightarrow>
          predict_pm25_for_district utcoffset fetch_air_quality weather_at_time missing_message
            scaler_transform model_predict round2 isoformat district year month day hour minute
            api_key feature_columns include_raw_data
          = Inr (Failure i n ne la lo (exn_msg e) (exn_type e))"
    using assms by (simp add: predict_pm25_for_district_def split: sum.splits)
next
  fix naive target_time time_t1 time_t2 e
  assume t: "make_datetime year month day hour minute = Inr naive"
    "localize utcoffset naive = Inr target_time"
    "aware_add target_time (- td_hours 1) = Inr time_t1"
    "aware_add target_time (- td_hours 2) = Inr time_t2"
  note r = try_block_raises [OF assms(4,5) t refl refl refl]
  assume "get_15_features_at_time fetch_air_quality weather_at_time time_t2 api_key la lo = Inl e \<or>
         (\<exists>f2. get_15_features_at_time fetch_air_quality weather_at_time time_t2 api_key la lo = Inr f2 \<and>
           (get_15_features_at_time fetch_air_quality weather_at_time time_t1 api_key la lo = Inl e \<or>
            (\<exists>f1. get_15_features_at_time fetch_air_quality weather_at_time time_t1 api_key la lo = Inr f1 \<and>
              (get_15_features_at_time fetch_air_quality weather_at_time target_time api_key la lo = Inl e \<or>
               (\<exists>f0. get_15_features_at_time fetch_air_quality weather_at_time target_time api_key la lo = Inr f0 \<and>
                 (create_features_from_3hours (sort_index (frame_of_snapshots [f2, f1, f0])) = Inl e \<or>
                  (\<exists>df. create_features_from_3hours (sort_index (frame_of_snapshots [f2, f1, f0])) = Inr df \<and>
                    (select_features missing_message feature_columns df = Inl e \<or>
                     (\<exists>df'. select_features missing_message feature_columns df = Inr df' \<and>
                       (scaler_transform df' = Inl e \<or>
                        (\<exists>X_scaled. scaler_transform df' = Inr X_scaled \<and>
                           model_predict X_scaled = Inl e)))))))))))"
  then have "try_block utcoffset fetch_air_quality weather_at_time missing_message scaler_transform
          model_predict round2 isoformat district year month day hour minute api_key
          feature_columns include_raw_data = Inl e"
    by (elim disjE exE conjE) (rule r; assumption)+
  then show "predict_pm25_for_district utcoffset fetch_air_quality weather_at_time missing_message
          scaler_transform model_predict round2 isoformat district year month day hour minute
          api_key feature_columns include_raw_data
        = Inr (Failure i n ne la lo (exn_msg e) (exn_type e))"
    by (rule handler_returns_failure [OF assms])
qed

text \<open>A district whose air-quality provider times out, at 2025-11-25 12:00.\<close>

theorem predictor_catches_every_exception_witness:
  "predict_pm25_for_district (\<lambda>_. td_hours 7)
     (\<lambda>_ _ _ _. Inl (Exn ''ConnectionError'' ''timed out'')) (\<lambda>_ _ _. Inl (ValueError ''No weather data available''))
     (\<lambda>_. []) (\<lambda>_. Inr ()) (\<lambda>_. Inr 0) (\<lambda>x. x) (\<lambda>_. [])
     \<lparr>d_id = Some 1, d_name = Some ''Ba Dinh'', d_name_en = Some ''Ba Dinh'', d_lat = Some 21,
      d_lon = Some 105, d_population = None, d_area_km2 = None, d_type = None\<rparr>
     2025 11 25 12 0 ''key'' None True
   = Inr (Failure 1 ''Ba Dinh'' ''Ba Dinh'' 21 105 ''timed out'' ''ConnectionError'')"
proof -
  let ?t = "\<lparr>wall = 1764072000000000, utcoff = 25200000000\<rparr>"
  have m: "make_datetime 2025 11 25 12 0 = Inr 1764072000000000"
    by (simp add: make_datetime_def c_int_error_def days_in_month_def days_from_civil_def
        td_days_def td_hours_def td_minutes_def)
  have l: "localize (\<lambda>_. td_hours 7) 1764072000000000 = Inr ?t"
    by (simp add: localize_def datetime_add_def datetime_min_value datetime_max_value td_days_def
        td_hours_def)
  have a1: "aware_add ?t (- td_hours 1) = Inr (?t\<lparr>wall := 1764068400000000\<rparr>)"
    by (simp add: aware_add_def datetime_add_def datetime_min_value datetime_max_value td_hours_def)
  have a2: "aware_add ?t (- td_hours 2) = Inr (?t\<lparr>wall := 1764064800000000\<rparr>)"
    by (simp add: aware_add_def datetime_add_def datetime_min_value datetime_max_value td_hours_def)
  have g: "get_15_features_at_time (\<lambda>_ _ _ _. Inl (Exn ''ConnectionError'' ''timed out''))
             (\<lambda>_ _ _. Inl (ValueError ''No weather data available''))
             (?t\<lparr>wall := 1764064800000000\<rparr>) ''key'' 21 105
           = Inl (Exn ''ConnectionError'' ''timed out'')"
    by (simp add: get_15_features_at_time_def astimezone_utc_def instant_def datetime_min_value
        datetime_max_value)
  show ?thesis
    using predictor_catches_every_exception
      [where district = "\<lparr>d_id = Some 1, d_name = Some ''Ba Dinh'', d_name_en = Some ''Ba Dinh'',
          d_lat = Some 21, d_lon = Some 105, d_population = None, d_area_km2 = None,
          d_type = None\<rparr>"
        and i = 1 and n = "''Ba Dinh''" and ne = "''Ba Dinh''" and la = 21 and lo = 105
        and utcoffset = "\<lambda>_. td_hours 7"
        and fetch_air_quality = "\<lambda>_ _ _ _. Inl (Exn ''ConnectionError'' ''timed out'')"
        and weather_at_time = "\<lambda>_ _ _. Inl (ValueError ''No weather data available'')"
        and year = 2025 and month = 11 and day = 25 and hour = 12 and minute = 0
        and api_key = "''key''",
        THEN conjunct2, rule_format, OF _ _ _ _ _ m l a1 a2 disjI1, OF _ _ _ _ _ g]
    by simp
qed


section \<open>Properties of the batch route\<close>

text \<open>
  Claim C5 is about every batch over \<open>N\<close> districts, of which \<open>K\<close> fail. With no
  district at all (\<open>N = 0\<close>, \<open>K = 0\<close>) the claim asks for a response with no success
  entry and no error entry, whose statistics are over no value. The route has no response
  then: the summary line of the log divides by the number of districts and raises
  \<^verbatim>\<open>ZeroDivisionError\<close>.
\<close>

theorem batch_over_no_districts_raises:
  "predict_all_districts np percent round2 predict [] [] = Inl (ZeroDivisionError ''division by zero'')"
  by (simp add: predict_all_districts_def)

text \<open>
  With at least one district the claim holds, when no prediction raises and the ids of
  the districts are distinct: the successes and the errors of the response are the
  successful and the failed outcomes, \<open>N - K\<close> and \<open>K\<close> of them, each list is sorted by
  id, the two sets of ids are disjoint and together they are the ids of the districts,
  and the statistics are those of the list of successes.
\<close>

lemma collect_Inr:
  "list_all (\<lambda>x. \<not> isl x) os \<Longrightarrow>
   collect os results errors
     = Inr (results @ filter (\<lambda>r. status r = ''success'') (map projr os),
            errors @ filter (\<lambda>r. status r \<noteq> ''success'') (map projr os))"
proof (induction os arbitrary: results errors)
  case Nil
  show ?case by simp
next
  case (Cons a os)
  then obtain r where a: "a = Inr r" by (cases a) auto
  from Cons show ?case by (simp add: a)
qed

lemma mset_map_completed:
  assumes "mset completed = mset [0..<length xs]"
  shows "mset (map (\<lambda>i. f (xs ! i)) completed) = mset (map f xs)"
proof -
  have "mset (map (\<lambda>i. f (xs ! i)) completed) = image_mset (\<lambda>i. f (xs ! i)) (mset completed)"
    by simp
  also have "\<dots> = image_mset (\<lambda>i. f (xs ! i)) (mset [0..<length xs])"
    by (simp only: assms)
  also have "\<dots> = mset (map (\<lambda>i. f (xs ! i)) [0..<length xs])" by simp
  also have "map (\<lambda>i. f (xs ! i)) [0..<length xs] = map f xs"
    by (rule nth_equalityI) simp_all
  finally show ?thesis .
qed

lemma batch_partial_failure:
  fixes districts :: "district list"
  assumes ne: "districts \<noteq> []"
    and perm: "mset completed = mset [0..<length districts]"
    and ok: "\<forall>d \<in> set districts. \<exists>r. predict d = Inr r \<and> d_id d = Some (res_id r)"
    and ids: "distinct (map d_id districts)"
  defines "outcomes \<equiv> map (\<lambda>d. projr (predict d)) districts"
  defines "K \<equiv> length (filter (\<lambda>r. status r \<noteq> ''success'') outcomes)"
  shows "\<exists>resp. predict_all_districts np percent round2 predict districts completed = Inr resp \<and>
           mset (resp_districts resp) = filter_mset (\<lambda>r. status r = ''success'') (mset outcomes) \<and>
           mset (errors_of resp) = filter_mset (\<lambda>r. status r \<noteq> ''success'') (mset outcomes) \<and>
           length (resp_districts resp) = length districts - K \<and>
           length (errors_of resp) = K \<and>
           sorted (map res_id (resp_districts resp)) \<and>
           sorted (map res_id (errors_of resp)) \<and>
           res_id ` set (resp_districts resp) \<inter> res_id ` set (errors_of resp) = {} \<and>
           Some ` (res_id ` set (resp_districts resp) \<union> res_id ` set (errors_of resp))
             = d_id ` set districts \<and>
           resp_statistics resp
             = compute_statistics np percent round2 (resp_districts resp)
                 (length districts - K) (length districts) K"
proof -
  let ?os = "map (\<lambda>i. predict (districts ! i)) completed"
  let ?S = "sort_key res_id (filter (\<lambda>r. status r = ''success'') (map projr ?os))"
  let ?E = "sort_key res_id (filter (\<lambda>r. status r \<noteq> ''success'') (map projr ?os))"
  let ?resp = "\<lparr>resp_districts = ?S,
      resp_statistics = compute_statistics np percent round2 ?S (length ?S) (length districts) (length ?E),
      resp_errors = (if ?E \<noteq> [] then Some ?E else None),
      resp_warning =
        (if ?E \<noteq> []
         then Some (''Failed '' @ digits (length ?E) @ ''/'' @ digits (length districts) @ '' districts'')
         else None)\<rparr>"
  have set_c: "set completed = {0..<length districts}"
    using perm by (metis mset_eq_setD set_upt)
  have all: "list_all (\<lambda>x. \<not> isl x) ?os"
  proof -
    have "\<not> isl (predict (districts ! i))" if "i < length districts" for i
      using ok nth_mem [OF that] by force
    then show ?thesis using set_c by (auto simp: list_all_iff)
  qed
  have res: "predict_all_districts np percent round2 predict districts completed = Inr ?resp"
    using ne by (simp add: predict_all_districts_def collect_Inr [OF all] Let_def)
  have m: "mset (map projr ?os) = mset outcomes"
    using mset_map_completed [OF perm, of "\<lambda>d. projr (predict d)"]
    by (simp add: outcomes_def comp_def)
  have mS: "mset ?S = filter_mset (\<lambda>r. status r = ''success'') (mset outcomes)"
    by (simp add: m [symmetric])
  have mE: "mset ?E = filter_mset (\<lambda>r. status r \<noteq> ''success'') (mset outcomes)"
    by (simp add: m [symmetric])
  have eo: "errors_of ?resp = ?E" by (simp add: errors_of_def)
  have lE: "length ?E = K"
  proof -
    have "length ?E = size (mset ?E)" by (simp only: size_mset)
    also have "\<dots> = size (mset (filter (\<lambda>r. status r \<noteq> ''success'') outcomes))"
      by (simp only: mE mset_filter)
    also have "\<dots> = K" by (simp only: size_mset K_def)
    finally show ?thesis .
  qed
  have lS: "length ?S = length districts - K"
  proof -
    have "length ?S = size (mset ?S)" by (simp only: size_mset)
    also have "\<dots> = size (mset (filter (\<lambda>r. status r = ''success'') outcomes))"
      by (simp only: mS mset_filter)
    also have "\<dots> = length (filter (\<lambda>r. status r = ''success'') outcomes)"
      by (simp only: size_mset)
    finally have "length ?S + K = length outcomes"
      using sum_length_filter_compl [of "\<lambda>r. status r = ''success''" outcomes]
      by (simp add: K_def)
    then show ?thesis by (simp add: outcomes_def)
  qed
  have setS: "set ?S = {r \<in> set outcomes. status r = ''success''}"
    using arg_cong [OF mS, of set_mset] by simp
  have setE: "set ?E = {r \<in> set outcomes. status r \<noteq> ''success''}"
    using arg_cong [OF mE, of set_mset] by simp
  have inj: "inj_on d_id (set districts)"
    using ids by (simp add: distinct_map)
  have idr: "d_id d = Some (res_id (projr (predict d)))" if "d \<in> set districts" for d
    using ok that by force
  have disj: "res_id ` set ?S \<inter> res_id ` set ?E = {}"
  proof (rule ccontr)
    assume "res_id ` set ?S \<inter> res_id ` set ?E \<noteq> {}"
    then obtain r1 r2 where r: "r1 \<in> set ?S" "r2 \<in> set ?E" "res_id r1 = res_id r2" by auto
    then obtain d1 d2 where d: "d1 \<in> set districts" "d2 \<in> set districts"
      "r1 = projr (predict d1)" "r2 = projr (predict d2)"
      unfolding setS setE outcomes_def by auto
    have "d_id d1 = d_id d2" using idr [OF d(1)] idr [OF d(2)] d r(3) by simp
    then have "d1 = d2" using inj d(1,2) by (auto dest: inj_onD)
    then have "r1 = r2" using d by simp
    with r(1,2) show False unfolding setS setE by simp
  qed
  have "set ?S \<union> set ?E = set outcomes" unfolding setS setE by auto
  then have "res_id ` set ?S \<union> res_id ` set ?E = res_id ` set outcomes" by (metis image_Un)
  then have un: "Some ` (res_id ` set ?S \<union> res_id ` set ?E) = d_id ` set districts"
    using idr by (force simp: outcomes_def image_iff)
  have st: "resp_statistics ?resp
      = compute_statistics np percent round2 (resp_districts ?resp) (length districts - K) (length districts) K"
    using lS lE by simp
  have s1: "sorted (map res_id ?S)" by (rule sorted_sort_key)
  have s2: "sorted (map res_id ?E)" by (rule sorted_sort_key)
  show ?thesis
    apply (rule exI [of _ ?resp])
    apply (intro conjI)
    apply (rule res)
    using mS apply simp
    using mE eo apply simp
    using lS apply simp
    using lE eo apply simp
    using s1 apply simp
    using s2 eo apply simp
    using disj eo apply simp
    using un eo apply simp
    apply (rule st)
    done
qed

end
